theory Spec2Isabelle
  imports Main "HOL-Library.Word"
begin

section \<open>Scalar-to-array assignment (array\_assign\_scalar.c)\<close>

subsection \<open>Data model\<close>

type_synonym byte = "8 word"
type_synonym addr = int

text \<open>The fields of \<open>PyArray_Descr\<close> that the file reads: \<open>elsize\<close>, \<open>alignment\<close>,
  and the item-refcount flag tested by \<open>PyDataType_REFCHK\<close>. \<open>type_num\<close> tells
  descriptors apart. \<open>elsize\<close> is a \<open>nat\<close>: a descriptor has no negative size.\<close>

record PyArray_Descr =
  type_num :: nat
  elsize :: nat
  alignment :: int
  refchk :: bool

text \<open>The fields of \<open>PyArrayObject\<close> behind the accessor macros. \<open>PyArray_NDIM\<close> is the
  length of the dimension list.\<close>

record PyArrayObject =
  PyArray_DESCR :: PyArray_Descr
  PyArray_DATA :: addr
  PyArray_DIMS :: "int list"
  PyArray_STRIDES :: "int list"
  writeable :: bool

definition PyArray_NDIM :: "PyArrayObject \<Rightarrow> nat" where
  "PyArray_NDIM a = length (PyArray_DIMS a)"

definition PyArray_SIZE :: "PyArrayObject \<Rightarrow> int" where
  "PyArray_SIZE a = prod_list (PyArray_DIMS a)"

datatype NPY_CASTING =
  NPY_NO_CASTING | NPY_EQUIV_CASTING | NPY_SAFE_CASTING | NPY_SAME_KIND_CASTING | NPY_UNSAFE_CASTING

datatype pyerr = ValueError string | TypeError string | MemoryError | OtherError string

text \<open>The heap that callbacks may touch: the byte store and the interpreter's pending
  error (\<open>PyErr_Occurred\<close>).\<close>

record heap =
  mem :: "addr \<Rightarrow> byte"
  pending :: "pyerr option"

text \<open>A transfer callback as returned by the transfer-function constructor, with the
  \<open>needs_api\<close> flag it reports. The arguments of \<open>stransfer\<close> are dst, dst\_stride, src,
  src\_stride, N, src\_itemsize; the masked callback takes the mask pointer and stride
  before N. The auxiliary data is part of the closure.\<close>

record xfer =
  stransfer :: "addr \<Rightarrow> int \<Rightarrow> addr \<Rightarrow> int \<Rightarrow> int \<Rightarrow> nat \<Rightarrow> heap \<Rightarrow> heap"
  needs_api :: bool

record mxfer =
  mstransfer :: "addr \<Rightarrow> int \<Rightarrow> addr \<Rightarrow> int \<Rightarrow> addr \<Rightarrow> int \<Rightarrow> int \<Rightarrow> nat \<Rightarrow> heap \<Rightarrow> heap"
  mneeds_api :: bool

text \<open>The iteration plan written by \<open>PyArray_PrepareOneRawArrayIter\<close> into \<open>ndim\<close>,
  \<open>shape_it\<close>, \<open>dst_data\<close> and \<open>dst_strides_it\<close>. The C arrays always have an entry 0,
  which the engine reads, so the record keeps entry 0 apart from the entries
  \<open>1..ndim-1\<close> (the outer dimensions, two lists of the same length).
  \<open>PyArray_PrepareTwoRawArrayIter\<close> writes the same for the destination, and the
  strides and the base pointer of the second array.\<close>

record one_iter =
  shape0 :: int
  dst_stride0 :: int
  shape_outer :: "int list"
  dst_strides_outer :: "int list"
  dst_base :: addr

record two_iter =
  dst_it :: one_iter
  mask_stride0 :: int
  mask_strides_outer :: "int list"
  mask_base :: addr

text \<open>What the call did, in order: each call of an external collaborator that a claim
  observes is appended to the trace by the function that makes the call.\<close>

datatype event =
    GetTransfer bool int int PyArray_Descr PyArray_Descr
  | GetMaskedTransfer bool int int int PyArray_Descr PyArray_Descr PyArray_Descr
  | SaveThread
  | RestoreThread
  | Transfer addr int addr int int nat
  | MaskedTransfer addr int addr int addr int int nat
  | Malloc nat "addr option"
  | Free addr
  | CastRawArrays int addr addr int int PyArray_Descr PyArray_Descr

fun is_write_event :: "event \<Rightarrow> bool" where
  "is_write_event (Transfer d ds s ss n isz) = True"
| "is_write_event (MaskedTransfer d ds s ss m ms n isz) = True"
| "is_write_event _ = False"

record world =
  hp :: heap
  trace :: "event list"

definition log_event :: "event \<Rightarrow> world \<Rightarrow> world" where
  "log_event e w = w\<lparr>trace := trace w @ [e]\<rparr>"

definition PyErr_Set :: "pyerr \<Rightarrow> world \<Rightarrow> world" where
  "PyErr_Set e w = w\<lparr>hp := (hp w)\<lparr>pending := Some e\<rparr>\<rparr>"

definition on_heap :: "(heap \<Rightarrow> heap) \<Rightarrow> world \<Rightarrow> world" where
  "on_heap f w = w\<lparr>hp := f (hp w)\<rparr>"

subsection \<open>External collaborators\<close>

text \<open>The functions this file calls and that live elsewhere in the library are
  parameters of the model.\<close>

record externals =
  PrepareOneRawArrayIter :: "nat \<Rightarrow> int list \<Rightarrow> addr \<Rightarrow> int list \<Rightarrow> pyerr + one_iter"
  PrepareTwoRawArrayIter ::
    "nat \<Rightarrow> int list \<Rightarrow> addr \<Rightarrow> int list \<Rightarrow> addr \<Rightarrow> int list \<Rightarrow> pyerr + two_iter"
  GetDTypeTransferFunction ::
    "bool \<Rightarrow> int \<Rightarrow> int \<Rightarrow> PyArray_Descr \<Rightarrow> PyArray_Descr \<Rightarrow> bool \<Rightarrow> pyerr + xfer"
  GetMaskedDTypeTransferFunction ::
    "bool \<Rightarrow> int \<Rightarrow> int \<Rightarrow> int \<Rightarrow> PyArray_Descr \<Rightarrow> PyArray_Descr \<Rightarrow> PyArray_Descr
       \<Rightarrow> bool \<Rightarrow> pyerr + mxfer"
  threads_threshold :: int
  can_cast_scalar_to :: "PyArray_Descr \<Rightarrow> addr \<Rightarrow> heap \<Rightarrow> PyArray_Descr \<Rightarrow> NPY_CASTING \<Rightarrow> bool"
  descr_repr :: "PyArray_Descr \<Rightarrow> string"
  npy_casting_to_string :: "NPY_CASTING \<Rightarrow> string"
  PyArray_EquivTypes :: "PyArray_Descr \<Rightarrow> PyArray_Descr \<Rightarrow> bool"
  scalarbuffer :: addr
  PyArray_malloc :: "nat \<Rightarrow> world \<Rightarrow> addr option"
  PyArray_CastRawArrays ::
    "int \<Rightarrow> addr \<Rightarrow> addr \<Rightarrow> int \<Rightarrow> int \<Rightarrow> PyArray_Descr \<Rightarrow> PyArray_Descr \<Rightarrow> bool
       \<Rightarrow> heap \<Rightarrow> bool \<times> heap"
  broadcast_strides ::
    "nat \<Rightarrow> int list \<Rightarrow> nat \<Rightarrow> int list \<Rightarrow> int list \<Rightarrow> string \<Rightarrow> pyerr + int list"

text \<open>Modelled from the spec: \<open>npy_is_aligned\<close> and \<open>raw_array_is_aligned\<close> are not in
  src/. The spec (4.2) asks for the destination's per-element alignment requirement to
  hold at the base pointer and at every stride step, and for the scalar pointer to be
  aligned to its own requirement. A requirement of at most one byte always holds.\<close>

definition npy_is_aligned :: "addr \<Rightarrow> int \<Rightarrow> bool" where
  "npy_is_aligned p al = (p mod al = 0)"

definition raw_array_is_aligned :: "nat \<Rightarrow> addr \<Rightarrow> int list \<Rightarrow> int \<Rightarrow> bool" where
  "raw_array_is_aligned ndim data strides al =
     (if al > 1 then npy_is_aligned data al \<and> list_all (\<lambda>s. npy_is_aligned s al) (take ndim strides)
      else True)"

text \<open>Modelled from the spec: the macros \<open>NPY_RAW_ITER_START\<close>, \<open>NPY_RAW_ITER_ONE_NEXT\<close>
  and \<open>NPY_RAW_ITER_TWO_NEXT\<close> are not in src/. The spec (4.2) has the body run once for
  every coordinate of the normalized shape except the innermost dimension, dimension 1
  varying fastest, the data pointers advanced by the strides of the coordinate.\<close>

fun raw_iter_coords :: "int list \<Rightarrow> int list list" where
  "raw_iter_coords [] = [[]]"
| "raw_iter_coords (n # ns) =
     concat (map (\<lambda>cs. map (\<lambda>c. int c # cs) [0..<nat n]) (raw_iter_coords ns))"

definition coord_offset :: "int list \<Rightarrow> int list \<Rightarrow> int" where
  "coord_offset cs strides = sum_list (map2 (*) cs strides)"

definition one_rows :: "one_iter \<Rightarrow> addr list" where
  "one_rows it =
     map (\<lambda>cs. dst_base it + coord_offset cs (dst_strides_outer it))
       (raw_iter_coords (shape_outer it))"

definition two_rows :: "two_iter \<Rightarrow> (addr \<times> addr) list" where
  "two_rows it =
     map (\<lambda>cs. (dst_base (dst_it it) + coord_offset cs (dst_strides_outer (dst_it it)),
                mask_base it + coord_offset cs (mask_strides_outer it)))
       (raw_iter_coords (shape_outer (dst_it it)))"

definition nitems :: "int \<Rightarrow> int list \<Rightarrow> int" where
  "nitems n0 outer = prod_list (n0 # outer)"

subsection \<open>The broadcast engines\<close>

text \<open>The alignment check at the head of both engines (lines 48 to 53 and 121 to 126).\<close>

definition check_alignment ::
  "nat \<Rightarrow> PyArray_Descr \<Rightarrow> addr \<Rightarrow> int list \<Rightarrow> PyArray_Descr \<Rightarrow> addr \<Rightarrow> bool" where
  "check_alignment ndim dst_dtype dst_data dst_strides src_dtype src_data =
     (let aligned = raw_array_is_aligned ndim dst_data dst_strides (alignment dst_dtype)
      in if \<not> npy_is_aligned src_data (alignment src_dtype) then False else aligned)"

text \<open>Both engines follow the C text in its order: the alignment check; the normalizer,
  whose failure returns \<open>-1\<close> with the error it left; the transfer-function constructor,
  logged with the arguments of the call, whose failure returns \<open>-1\<close>; the decision to
  release the lock; the runs of the plan, each handed to the callback with the source
  stride 0; the reacquisition of the lock; the return value. \<open>NPY_AUXDATA_FREE\<close> releases
  the auxiliary data of the callback, which the model does not represent.

  Modelled from the spec: the macros \<open>NPY_BEGIN_THREADS_THRESHOLDED\<close> and
  \<open>NPY_END_THREADS\<close> are not in src/. The spec (5) has the lock released when the
  element count exceeds an internal threshold, and reacquired after the loop when it was
  released; the threshold is a parameter. The count is the product of the extents of the
  plan, taken in \<open>int\<close>: the overflow of \<open>npy_intp\<close> is not modelled.\<close>

definition raw_array_assign_scalar ::
  "externals \<Rightarrow> nat \<Rightarrow> int list \<Rightarrow> PyArray_Descr \<Rightarrow> addr \<Rightarrow> int list \<Rightarrow>
     PyArray_Descr \<Rightarrow> addr \<Rightarrow> world \<Rightarrow> int \<times> world" where
  "raw_array_assign_scalar ext ndim shape dst_dtype dst_data dst_strides src_dtype src_data w =
    (let src_itemsize = elsize src_dtype;
         aligned = check_alignment ndim dst_dtype dst_data dst_strides src_dtype src_data
     in case PrepareOneRawArrayIter ext ndim shape dst_data dst_strides of
          Inl e \<Rightarrow> (- 1, PyErr_Set e w)
        | Inr it \<Rightarrow>
           (let w1 = log_event (GetTransfer aligned 0 (dst_stride0 it) src_dtype dst_dtype) w
            in case GetDTypeTransferFunction ext aligned 0 (dst_stride0 it)
                      src_dtype dst_dtype False of
                 Inl e \<Rightarrow> (- 1, PyErr_Set e w1)
               | Inr t \<Rightarrow>
                  (let released = (\<not> needs_api t
                          \<and> nitems (shape0 it) (shape_outer it) > threads_threshold ext);
                       w2 = (if released then log_event SaveThread w1 else w1);
                       w3 = fold (\<lambda>d w'. on_heap
                                    (stransfer t d (dst_stride0 it) src_data 0 (shape0 it) src_itemsize)
                                    (log_event (Transfer d (dst_stride0 it) src_data 0
                                                  (shape0 it) src_itemsize) w'))
                              (one_rows it) w2;
                       w4 = (if released then log_event RestoreThread w3 else w3)
                   in (if needs_api t \<and> pending (hp w4) \<noteq> None then - 1 else 0, w4))))"

definition raw_array_wheremasked_assign_scalar ::
  "externals \<Rightarrow> nat \<Rightarrow> int list \<Rightarrow> PyArray_Descr \<Rightarrow> addr \<Rightarrow> int list \<Rightarrow>
     PyArray_Descr \<Rightarrow> addr \<Rightarrow> PyArray_Descr \<Rightarrow> addr \<Rightarrow> int list \<Rightarrow> world \<Rightarrow> int \<times> world" where
  "raw_array_wheremasked_assign_scalar ext ndim shape dst_dtype dst_data dst_strides
      src_dtype src_data wheremask_dtype wheremask_data wheremask_strides w =
    (let src_itemsize = elsize src_dtype;
         aligned = check_alignment ndim dst_dtype dst_data dst_strides src_dtype src_data
     in case PrepareTwoRawArrayIter ext ndim shape dst_data dst_strides
               wheremask_data wheremask_strides of
          Inl e \<Rightarrow> (- 1, PyErr_Set e w)
        | Inr it \<Rightarrow>
           (let w1 = log_event (GetMaskedTransfer aligned 0 (dst_stride0 (dst_it it)) (mask_stride0 it)
                                  src_dtype dst_dtype wheremask_dtype) w
            in case GetMaskedDTypeTransferFunction ext aligned 0 (dst_stride0 (dst_it it))
                      (mask_stride0 it) src_dtype dst_dtype wheremask_dtype False of
                 Inl e \<Rightarrow> (- 1, PyErr_Set e w1)
               | Inr t \<Rightarrow>
                  (let released = (\<not> mneeds_api t
                          \<and> nitems (shape0 (dst_it it)) (shape_outer (dst_it it)) > threads_threshold ext);
                       w2 = (if released then log_event SaveThread w1 else w1);
                       w3 = fold (\<lambda>(d, m) w'. on_heap
                                    (mstransfer t d (dst_stride0 (dst_it it)) src_data 0
                                       m (mask_stride0 it) (shape0 (dst_it it)) src_itemsize)
                                    (log_event (MaskedTransfer d (dst_stride0 (dst_it it)) src_data 0
                                                  m (mask_stride0 it) (shape0 (dst_it it)) src_itemsize) w'))
                              (two_rows it) w2;
                       w4 = (if released then log_event RestoreThread w3 else w3)
                   in (if mneeds_api t \<and> pending (hp w4) \<noteq> None then - 1 else 0, w4))))"

subsection \<open>The assignment orchestrator\<close>

text \<open>Modelled from the spec: \<open>PyArray_FailUnlessWriteable\<close> is not in src/. The spec
  (4.3, step 1) has it fail with a not-writable error when the destination cannot be
  written; the message is built from the name the caller passes.\<close>

definition PyArray_FailUnlessWriteable :: "PyArrayObject \<Rightarrow> string \<Rightarrow> pyerr option" where
  "PyArray_FailUnlessWriteable a name =
     (if writeable a then None else Some (ValueError (name @ '' is read-only'')))"

definition cast_errmsg ::
  "externals \<Rightarrow> PyArray_Descr \<Rightarrow> PyArray_Descr \<Rightarrow> NPY_CASTING \<Rightarrow> string" where
  "cast_errmsg ext src_dtype dst_dtype casting =
     ''Cannot cast scalar from '' @ descr_repr ext src_dtype @ '' to '' @
     descr_repr ext dst_dtype @ '' according to the rule '' @ npy_casting_to_string ext casting"

text \<open>The condition of the staging block (lines 226 to 229).\<close>

definition needs_staging ::
  "externals \<Rightarrow> PyArrayObject \<Rightarrow> PyArray_Descr \<Rightarrow> addr \<Rightarrow> bool" where
  "needs_staging ext dst src_dtype src_data =
     ((\<not> PyArray_EquivTypes ext (PyArray_DESCR dst) src_dtype
         \<or> \<not> npy_is_aligned src_data (alignment src_dtype))
      \<and> PyArray_SIZE dst > 1
      \<and> \<not> refchk (PyArray_DESCR dst))"

text \<open>\<open>sizeof(scalarbuffer)\<close>: four \<open>npy_longlong\<close> of eight bytes.\<close>

definition sizeof_scalarbuffer :: nat where
  "sizeof_scalarbuffer = 32"

text \<open>The state of the local variables after the staging block: whether control
  continues (\<open>False\<close>: it jumped to \<open>fail\<close>), \<open>allocated_src_data\<close>, \<open>src_dtype\<close> and
  \<open>src_data\<close>.\<close>

record staged =
  continue :: bool
  allocated_src_data :: bool
  st_src_dtype :: PyArray_Descr
  st_src_data :: addr
  st_world :: world

definition stage_scalar ::
  "externals \<Rightarrow> PyArrayObject \<Rightarrow> PyArray_Descr \<Rightarrow> addr \<Rightarrow> world \<Rightarrow> staged" where
  "stage_scalar ext dst src_dtype src_data w =
    (if needs_staging ext dst src_dtype src_data then
       (let n = elsize (PyArray_DESCR dst);
            (tmp, allocated, wa) =
              (if sizeof_scalarbuffer \<ge> n then (Some (scalarbuffer ext), False, w)
               else (case PyArray_malloc ext n w of
                       None \<Rightarrow> (None, False, PyErr_Set MemoryError (log_event (Malloc n None) w))
                     | Some p \<Rightarrow> (Some p, True, log_event (Malloc n (Some p)) w)))
        in case tmp of
             None \<Rightarrow> \<lparr>continue = False, allocated_src_data = False,
                       st_src_dtype = src_dtype, st_src_data = src_data, st_world = wa\<rparr>
           | Some tmp_src_data \<Rightarrow>
              (let wb = log_event (CastRawArrays 1 src_data tmp_src_data 0 0
                                     src_dtype (PyArray_DESCR dst)) wa;
                   (ok, h) = PyArray_CastRawArrays ext 1 src_data tmp_src_data 0 0
                               src_dtype (PyArray_DESCR dst) False (hp wb);
                   wc = wb\<lparr>hp := h\<rparr>
               in if \<not> ok then
                    \<lparr>continue = False, allocated_src_data = allocated,
                     st_src_dtype = src_dtype, st_src_data = tmp_src_data, st_world = wc\<rparr>
                  else
                    \<lparr>continue = True, allocated_src_data = allocated,
                     st_src_dtype = PyArray_DESCR dst, st_src_data = tmp_src_data,
                     st_world = wc\<rparr>))
     else \<lparr>continue = True, allocated_src_data = False,
           st_src_dtype = src_dtype, st_src_data = src_data, st_world = w\<rparr>)"

text \<open>Lines 259 to 288: the dispatch to one of the two engines.\<close>

definition dispatch ::
  "externals \<Rightarrow> PyArrayObject \<Rightarrow> PyArray_Descr \<Rightarrow> addr \<Rightarrow> PyArrayObject option \<Rightarrow> world
     \<Rightarrow> int \<times> world" where
  "dispatch ext dst src_dtype src_data wheremask w =
    (case wheremask of
       None \<Rightarrow>
         raw_array_assign_scalar ext (PyArray_NDIM dst) (PyArray_DIMS dst)
           (PyArray_DESCR dst) (PyArray_DATA dst) (PyArray_STRIDES dst) src_dtype src_data w
     | Some wm \<Rightarrow>
         (case broadcast_strides ext (PyArray_NDIM dst) (PyArray_DIMS dst)
                 (PyArray_NDIM wm) (PyArray_DIMS wm) (PyArray_STRIDES wm) ''where mask'' of
            Inl e \<Rightarrow> (- 1, PyErr_Set e w)
          | Inr wheremask_strides \<Rightarrow>
              raw_array_wheremasked_assign_scalar ext (PyArray_NDIM dst) (PyArray_DIMS dst)
                (PyArray_DESCR dst) (PyArray_DATA dst) (PyArray_STRIDES dst) src_dtype src_data
                (PyArray_DESCR wm) (PyArray_DATA wm) wheremask_strides w))"

text \<open>The whole function: the writability check and the cast check, each returning \<open>-1\<close>
  at once; the staging block; the dispatch, skipped when the staging block jumped to
  \<open>fail\<close>; then, on the success path and at \<open>fail\<close> alike, the release of \<open>src_data\<close>
  when \<open>allocated_src_data\<close> is set.\<close>

definition PyArray_AssignRawScalar ::
  "externals \<Rightarrow> PyArrayObject \<Rightarrow> PyArray_Descr \<Rightarrow> addr \<Rightarrow> PyArrayObject option \<Rightarrow>
     NPY_CASTING \<Rightarrow> world \<Rightarrow> int \<times> world" where
  "PyArray_AssignRawScalar ext dst src_dtype src_data wheremask casting w =
    (case PyArray_FailUnlessWriteable dst ''assignment destination'' of
       Some e \<Rightarrow> (- 1, PyErr_Set e w)
     | None \<Rightarrow>
        if \<not> can_cast_scalar_to ext src_dtype src_data (hp w) (PyArray_DESCR dst) casting then
          (- 1, PyErr_Set (TypeError (cast_errmsg ext src_dtype (PyArray_DESCR dst) casting)) w)
        else
          (let st = stage_scalar ext dst src_dtype src_data w;
               (r, w1) = (if continue st
                          then dispatch ext dst (st_src_dtype st) (st_src_data st) wheremask
                                 (st_world st)
                          else (- 1, st_world st));
               w2 = (if allocated_src_data st then log_event (Free (st_src_data st)) w1 else w1)
           in (if r < 0 then - 1 else 0, w2)))"

subsection \<open>The contract of the transfer callbacks\<close>

text \<open>Modelled from the spec: the callbacks built by \<open>PyArray_GetDTypeTransferFunction\<close>
  and \<open>PyArray_GetMaskedDTypeTransferFunction\<close> are not in src/. The spec (4.2) has the
  unconditional callback write the converted scalar bytes into each of the N slots of
  the run, one destination element per slot, and the masked callback do so only where
  the mask byte of the slot is true, leaving the other slots untouched. \<open>cast\<close> is the
  conversion of one element's bytes from the source type to the destination type.\<close>

fun write_bytes :: "(addr \<Rightarrow> byte) \<Rightarrow> addr \<Rightarrow> byte list \<Rightarrow> (addr \<Rightarrow> byte)" where
  "write_bytes m a [] = m"
| "write_bytes m a (b # bs) = write_bytes (m(a := b)) (a + 1) bs"

definition read_bytes :: "(addr \<Rightarrow> byte) \<Rightarrow> addr \<Rightarrow> nat \<Rightarrow> byte list" where
  "read_bytes m a n = map (\<lambda>k. m (a + int k)) [0..<n]"

type_synonym caster = "PyArray_Descr \<Rightarrow> PyArray_Descr \<Rightarrow> byte list \<Rightarrow> byte list"

definition copy_elem ::
  "caster \<Rightarrow> PyArray_Descr \<Rightarrow> PyArray_Descr \<Rightarrow> addr \<Rightarrow> addr \<Rightarrow> nat \<Rightarrow> heap \<Rightarrow> heap" where
  "copy_elem cast sd dd dst src src_itemsize h =
     h\<lparr>mem := write_bytes (mem h) dst
                 (take (elsize dd) (cast sd dd (read_bytes (mem h) src src_itemsize)))\<rparr>"

definition strided_transfer ::
  "caster \<Rightarrow> PyArray_Descr \<Rightarrow> PyArray_Descr \<Rightarrow>
     addr \<Rightarrow> int \<Rightarrow> addr \<Rightarrow> int \<Rightarrow> int \<Rightarrow> nat \<Rightarrow> heap \<Rightarrow> heap" where
  "strided_transfer cast sd dd dst dst_stride src src_stride N src_itemsize h =
     fold (\<lambda>i. copy_elem cast sd dd (dst + int i * dst_stride) (src + int i * src_stride)
                  src_itemsize)
       [0..<nat N] h"

definition masked_strided_transfer ::
  "caster \<Rightarrow> PyArray_Descr \<Rightarrow> PyArray_Descr \<Rightarrow>
     addr \<Rightarrow> int \<Rightarrow> addr \<Rightarrow> int \<Rightarrow> addr \<Rightarrow> int \<Rightarrow> int \<Rightarrow> nat \<Rightarrow> heap \<Rightarrow> heap" where
  "masked_strided_transfer cast sd dd dst dst_stride src src_stride wmask mask_stride N
       src_itemsize h =
     fold (\<lambda>i h'. if mem h' (wmask + int i * mask_stride) \<noteq> 0
                   then copy_elem cast sd dd (dst + int i * dst_stride)
                          (src + int i * src_stride) src_itemsize h'
                   else h')
       [0..<nat N] h"

text \<open>The addresses of the slots of one run, and of all runs of a plan.\<close>

definition row_slots :: "addr \<Rightarrow> int \<Rightarrow> int \<Rightarrow> addr list" where
  "row_slots base stride N = map (\<lambda>i. base + int i * stride) [0..<nat N]"

definition dst_slots :: "one_iter \<Rightarrow> addr list" where
  "dst_slots it = concat (map (\<lambda>d. row_slots d (dst_stride0 it) (shape0 it)) (one_rows it))"

definition mask_slots :: "two_iter \<Rightarrow> addr list" where
  "mask_slots it =
     concat (map (\<lambda>(d, m). row_slots m (mask_stride0 it) (shape0 (dst_it it))) (two_rows it))"

subsection \<open>A reference instance of the external collaborators\<close>

text \<open>Modelled from the spec: \<open>PyArray_PrepareOneRawArrayIter\<close> and
  \<open>PyArray_PrepareTwoRawArrayIter\<close> are not in src/. The spec (4.1) lets the normalizer
  collapse and reorder dimensions but does not oblige it to; this instance only turns the
  shape around (the last dimension of the array is the innermost run), gives an array of
  no dimension one run of one element, gives an array of no element one run of no
  element, and fails on a dimension mismatch.\<close>

definition plain_one_iter :: "nat \<Rightarrow> int list \<Rightarrow> addr \<Rightarrow> int list \<Rightarrow> pyerr + one_iter" where
  "plain_one_iter ndim shape data strides =
     (if length shape \<noteq> ndim \<or> length strides \<noteq> ndim then Inl (ValueError ''dimension mismatch'')
      else if ndim = 0 then
        Inr \<lparr>shape0 = 1, dst_stride0 = 0, shape_outer = [], dst_strides_outer = [], dst_base = data\<rparr>
      else if list_ex (\<lambda>n. n = 0) shape then
        Inr \<lparr>shape0 = 0, dst_stride0 = 0, shape_outer = [], dst_strides_outer = [], dst_base = data\<rparr>
      else
        Inr \<lparr>shape0 = last shape, dst_stride0 = last strides,
             shape_outer = rev (butlast shape), dst_strides_outer = rev (butlast strides),
             dst_base = data\<rparr>)"

definition plain_two_iter ::
  "nat \<Rightarrow> int list \<Rightarrow> addr \<Rightarrow> int list \<Rightarrow> addr \<Rightarrow> int list \<Rightarrow> pyerr + two_iter" where
  "plain_two_iter ndim shape dataA stridesA dataB stridesB =
     (case plain_one_iter ndim shape dataA stridesA of
        Inl e \<Rightarrow> Inl e
      | Inr a \<Rightarrow>
         (case plain_one_iter ndim shape dataB stridesB of
            Inl e \<Rightarrow> Inl e
          | Inr b \<Rightarrow> Inr \<lparr>dst_it = a, mask_stride0 = dst_stride0 b,
                          mask_strides_outer = dst_strides_outer b, mask_base = dst_base b\<rparr>))"

text \<open>Modelled from the spec: \<open>broadcast_strides\<close> is not in src/. The spec (4.1) gives a
  singleton mask dimension the stride zero and asks every other mask dimension to equal
  the destination's; this instance lines the mask's dimensions up with the trailing
  dimensions of the destination.\<close>

fun broadcast_dims :: "int list \<Rightarrow> int list \<Rightarrow> int list \<Rightarrow> int list option" where
  "broadcast_dims [] [] [] = Some []"
| "broadcast_dims (n # ns) (k # ks) (s # ss) =
     (if k = 1 then map_option ((#) 0) (broadcast_dims ns ks ss)
      else if k = n then map_option ((#) s) (broadcast_dims ns ks ss)
      else None)"
| "broadcast_dims _ _ _ = None"

definition plain_broadcast_strides ::
  "nat \<Rightarrow> int list \<Rightarrow> nat \<Rightarrow> int list \<Rightarrow> int list \<Rightarrow> string \<Rightarrow> pyerr + int list" where
  "plain_broadcast_strides ndim shape strides_ndim strides_shape strides name =
     (if strides_ndim > ndim then Inl (ValueError (''could not broadcast '' @ name))
      else case broadcast_dims (drop (ndim - strides_ndim) shape) strides_shape strides of
             None \<Rightarrow> Inl (ValueError (''could not broadcast '' @ name))
           | Some ss \<Rightarrow> Inr (replicate (ndim - strides_ndim) 0 @ ss))"

text \<open>Descriptors of a few element types, and a conversion between little-endian
  integers of different widths.\<close>

definition bool_descr :: PyArray_Descr where
  "bool_descr = \<lparr>type_num = 0, elsize = 1, alignment = 1, refchk = False\<rparr>"

definition int8_descr :: PyArray_Descr where
  "int8_descr = \<lparr>type_num = 1, elsize = 1, alignment = 1, refchk = False\<rparr>"

definition uint8_descr :: PyArray_Descr where
  "uint8_descr = \<lparr>type_num = 2, elsize = 1, alignment = 1, refchk = False\<rparr>"

definition int32_descr :: PyArray_Descr where
  "int32_descr = \<lparr>type_num = 5, elsize = 4, alignment = 4, refchk = False\<rparr>"

definition object_descr :: PyArray_Descr where
  "object_descr = \<lparr>type_num = 17, elsize = 8, alignment = 8, refchk = True\<rparr>"

definition string40_descr :: PyArray_Descr where
  "string40_descr = \<lparr>type_num = 18, elsize = 40, alignment = 1, refchk = False\<rparr>"

definition widen :: caster where
  "widen sd dd bs =
     take (elsize dd) (bs @ replicate (elsize dd) (if bs \<noteq> [] \<and> last bs \<ge> 128 then 255 else 0))"

definition plain_ext :: externals where
  "plain_ext =
     \<lparr>PrepareOneRawArrayIter = plain_one_iter,
      PrepareTwoRawArrayIter = plain_two_iter,
      GetDTypeTransferFunction =
        (\<lambda>aligned ss ds sd dd mv.
           Inr \<lparr>stransfer = strided_transfer widen sd dd, needs_api = refchk sd \<or> refchk dd\<rparr>),
      GetMaskedDTypeTransferFunction =
        (\<lambda>aligned ss ds ms sd dd md mv.
           Inr \<lparr>mstransfer = masked_strided_transfer widen sd dd,
                mneeds_api = refchk sd \<or> refchk dd\<rparr>),
      threads_threshold = 500,
      can_cast_scalar_to =
        (\<lambda>sd p h dd casting.
           casting = NPY_UNSAFE_CASTING \<or> type_num sd = type_num dd
           \<or> (elsize sd \<le> elsize dd \<and> (type_num dd = 2 \<longrightarrow> mem h p < 128))),
      descr_repr = (\<lambda>d. ''dtype('' @ replicate (type_num d) (CHR ''i'') @ '')''),
      npy_casting_to_string =
        (\<lambda>c. case c of NPY_NO_CASTING \<Rightarrow> ''no'' | NPY_EQUIV_CASTING \<Rightarrow> ''equiv''
              | NPY_SAFE_CASTING \<Rightarrow> ''safe'' | NPY_SAME_KIND_CASTING \<Rightarrow> ''same_kind''
              | NPY_UNSAFE_CASTING \<Rightarrow> ''unsafe''),
      PyArray_EquivTypes = (\<lambda>a b. type_num a = type_num b \<and> elsize a = elsize b),
      scalarbuffer = 1000,
      PyArray_malloc = (\<lambda>n w. Some 2000),
      PyArray_CastRawArrays =
        (\<lambda>count src dst ss ds sd dd mv h. (True, copy_elem widen sd dd dst src (elsize sd) h)),
      broadcast_strides = plain_broadcast_strides\<rparr>"

definition zero_world :: world where
  "zero_world = \<lparr>hp = \<lparr>mem = (\<lambda>a. 0), pending = None\<rparr>, trace = []\<rparr>"

text \<open>Instances whose transfer-function constructors fail, and whose callbacks raise an
  error under guarded execution.\<close>

definition failing_ext :: externals where
  "failing_ext =
     plain_ext\<lparr>GetDTypeTransferFunction :=
                 (\<lambda>aligned ss ds sd dd mv. Inl (OtherError ''no transfer function'')),
               GetMaskedDTypeTransferFunction :=
                 (\<lambda>aligned ss ds ms sd dd md mv. Inl (OtherError ''no masked transfer function''))\<rparr>"

definition raising_xfer :: xfer where
  "raising_xfer =
     \<lparr>stransfer = (\<lambda>d ds s ss n isz h. h\<lparr>pending := Some (OtherError ''bad value'')\<rparr>),
      needs_api = True\<rparr>"

definition raising_mxfer :: mxfer where
  "raising_mxfer =
     \<lparr>mstransfer = (\<lambda>d ds s ss m ms n isz h. h\<lparr>pending := Some (OtherError ''bad value'')\<rparr>),
      mneeds_api = True\<rparr>"

definition raising_ext :: externals where
  "raising_ext =
     plain_ext\<lparr>GetDTypeTransferFunction := (\<lambda>aligned ss ds sd dd mv. Inr raising_xfer),
               GetMaskedDTypeTransferFunction := (\<lambda>aligned ss ds ms sd dd md mv. Inr raising_mxfer)\<rparr>"

text \<open>The plan of a 3 by 4 array of 4-byte elements at address 0, and of a mask of the
  same shape at address 200.\<close>

definition plan34 :: one_iter where
  "plan34 = \<lparr>shape0 = 4, dst_stride0 = 4, shape_outer = [3], dst_strides_outer = [16],
             dst_base = 0\<rparr>"

definition plan34m :: two_iter where
  "plan34m = \<lparr>dst_it = plan34, mask_stride0 = 1, mask_strides_outer = [4], mask_base = 200\<rparr>"

subsection \<open>The events of a write loop\<close>

text \<open>What an engine appends to the trace once it holds the transfer function: the lock
  is released before the first run and taken again after the last one, when the decision
  of lines 74 to 80 (149 to 155) says so.\<close>

definition one_loop_events :: "externals \<Rightarrow> one_iter \<Rightarrow> xfer \<Rightarrow> addr \<Rightarrow> nat \<Rightarrow> event list" where
  "one_loop_events ext it t src_data src_itemsize =
     (let released = (\<not> needs_api t
            \<and> prod_list (shape0 it # shape_outer it) > threads_threshold ext)
      in (if released then [SaveThread] else []) @
         map (\<lambda>d. Transfer d (dst_stride0 it) src_data 0 (shape0 it) src_itemsize) (one_rows it) @
         (if released then [RestoreThread] else []))"

definition two_loop_events :: "externals \<Rightarrow> two_iter \<Rightarrow> mxfer \<Rightarrow> addr \<Rightarrow> nat \<Rightarrow> event list" where
  "two_loop_events ext it t src_data src_itemsize =
     (let released = (\<not> mneeds_api t
            \<and> prod_list (shape0 (dst_it it) # shape_outer (dst_it it)) > threads_threshold ext)
      in (if released then [SaveThread] else []) @
         map (\<lambda>(d, m). MaskedTransfer d (dst_stride0 (dst_it it)) src_data 0 m (mask_stride0 it)
                         (shape0 (dst_it it)) src_itemsize) (two_rows it) @
         (if released then [RestoreThread] else []))"

text \<open>The plan of a 2 by 500 array with row stride 4000 and element stride 8.\<close>

definition plan2x500 :: one_iter where
  "plan2x500 = \<lparr>shape0 = 500, dst_stride0 = 8, shape_outer = [2], dst_strides_outer = [4000],
                dst_base = 0\<rparr>"

subsection \<open>Reading the trace\<close>

text \<open>The buffers a trace allocates and frees, the staging events, and the scalar source
  (type and pointer) that the events of an engine name.\<close>

fun allocated :: "event \<Rightarrow> addr list" where
  "allocated (Malloc n (Some p)) = [p]"
| "allocated _ = []"

fun freed :: "event \<Rightarrow> addr list" where
  "freed (Free p) = [p]"
| "freed _ = []"

fun is_stage_event :: "event \<Rightarrow> bool" where
  "is_stage_event (Malloc n p) = True"
| "is_stage_event (CastRawArrays c s d ss ds sd dd) = True"
| "is_stage_event _ = False"

fun is_engine_event :: "event \<Rightarrow> bool" where
  "is_engine_event (Malloc n p) = False"
| "is_engine_event (Free p) = False"
| "is_engine_event (CastRawArrays c s d ss ds sd dd) = False"
| "is_engine_event _ = True"

fun event_src_dtype :: "event \<Rightarrow> PyArray_Descr list" where
  "event_src_dtype (GetTransfer al ss ds sd dd) = [sd]"
| "event_src_dtype (GetMaskedTransfer al ss ds ms sd dd md) = [sd]"
| "event_src_dtype _ = []"

fun event_src_data :: "event \<Rightarrow> addr list" where
  "event_src_data (Transfer d ds s ss n isz) = [s]"
| "event_src_data (MaskedTransfer d ds s ss m ms n isz) = [s]"
| "event_src_data _ = []"

definition mallocs :: "event list \<Rightarrow> addr list" where
  "mallocs evs = concat (map allocated evs)"

definition frees :: "event list \<Rightarrow> addr list" where
  "frees evs = concat (map freed evs)"

definition src_dtypes :: "event list \<Rightarrow> PyArray_Descr list" where
  "src_dtypes evs = concat (map event_src_dtype evs)"

definition src_ptrs :: "event list \<Rightarrow> addr list" where
  "src_ptrs evs = concat (map event_src_data evs)"

text \<open>The events of the staging block (lines 226 to 257): none when the condition is
  false; otherwise the conversion into the inline buffer, or the request of a heap buffer
  followed, when the request is granted, by the conversion into it.\<close>

definition stage_events ::
  "externals \<Rightarrow> PyArrayObject \<Rightarrow> PyArray_Descr \<Rightarrow> addr \<Rightarrow> world \<Rightarrow> event list" where
  "stage_events ext dst src_dtype src_data w =
     (if needs_staging ext dst src_dtype src_data then
        (if sizeof_scalarbuffer \<ge> elsize (PyArray_DESCR dst) then
           [CastRawArrays 1 src_data (scalarbuffer ext) 0 0 src_dtype (PyArray_DESCR dst)]
         else (case PyArray_malloc ext (elsize (PyArray_DESCR dst)) w of
                 None \<Rightarrow> [Malloc (elsize (PyArray_DESCR dst)) None]
               | Some p \<Rightarrow> [Malloc (elsize (PyArray_DESCR dst)) (Some p),
                            CastRawArrays 1 src_data p 0 0 src_dtype (PyArray_DESCR dst)]))
      else [])"

text \<open>Arrays and worlds for the examples: a writable 3 by 4 array of 4-byte integers at
  address 0, read-only and unsigned 1-byte variants, an array of 40-byte strings, an
  empty array, a mask of shape 3 by 4 at address 200, and a world whose byte at address
  100 is 255 (the 1-byte integer -1).\<close>

definition dst34 :: PyArrayObject where
  "dst34 = \<lparr>PyArray_DESCR = int32_descr, PyArray_DATA = 0, PyArray_DIMS = [3, 4],
            PyArray_STRIDES = [16, 4], writeable = True\<rparr>"


definition ubyte34 :: PyArrayObject where
  "ubyte34 = \<lparr>PyArray_DESCR = uint8_descr, PyArray_DATA = 0, PyArray_DIMS = [3, 4],
              PyArray_STRIDES = [4, 1], writeable = True\<rparr>"

definition str34 :: PyArrayObject where
  "str34 = \<lparr>PyArray_DESCR = string40_descr, PyArray_DATA = 0, PyArray_DIMS = [3, 4],
            PyArray_STRIDES = [160, 40], writeable = True\<rparr>"

definition empty04 :: PyArrayObject where
  "empty04 = \<lparr>PyArray_DESCR = int32_descr, PyArray_DATA = 0, PyArray_DIMS = [0, 4],
              PyArray_STRIDES = [16, 4], writeable = True\<rparr>"

definition mask34 :: PyArrayObject where
  "mask34 = \<lparr>PyArray_DESCR = bool_descr, PyArray_DATA = 200, PyArray_DIMS = [3, 4],
             PyArray_STRIDES = [4, 1], writeable = False\<rparr>"

definition neg_world :: world where
  "neg_world = \<lparr>hp = \<lparr>mem = (\<lambda>a. if a = 100 then 255 else 0), pending = None\<rparr>, trace = []\<rparr>"

definition ro_ubyte34 :: PyArrayObject where
  "ro_ubyte34 = ubyte34\<lparr>writeable := False\<rparr>"

text \<open>The plan of an array without elements, and the callback record that the reference
  instance builds for a conversion from 1-byte to 4-byte integers.\<close>

definition plan_empty :: one_iter where
  "plan_empty = \<lparr>shape0 = 0, dst_stride0 = 0, shape_outer = [], dst_strides_outer = [],
                 dst_base = 0\<rparr>"

definition widen_xfer :: xfer where
  "widen_xfer = \<lparr>stransfer = strided_transfer widen int8_descr int32_descr, needs_api = False\<rparr>"

definition widen_mxfer :: mxfer where
  "widen_mxfer =
     \<lparr>mstransfer = masked_strided_transfer widen int8_descr int32_descr, mneeds_api = False\<rparr>"

text \<open>A world whose twelve mask bytes at addresses 200 to 211 are true and whose scalar
  byte at address 100 is 5.\<close>

definition true_mask_world :: world where
  "true_mask_world =
     \<lparr>hp = \<lparr>mem = (\<lambda>a. if 200 \<le> a \<and> a < 212 then 1 else if a = 100 then 5 else 0),
             pending = None\<rparr>,
      trace = []\<rparr>"

text \<open>An instance whose transfer-function constructors refuse an unaligned request: the
  answer depends on the alignment flag alone.\<close>

definition picky_ext :: externals where
  "picky_ext =
     plain_ext\<lparr>GetDTypeTransferFunction :=
                 (\<lambda>aligned ss ds sd dd mv.
                    if aligned
                    then Inr \<lparr>stransfer = strided_transfer widen sd dd, needs_api = False\<rparr>
                    else Inl (OtherError ''unaligned'')),
               GetMaskedDTypeTransferFunction :=
                 (\<lambda>aligned ss ds ms sd dd md mv.
                    if aligned
                    then Inr \<lparr>mstransfer = masked_strided_transfer widen sd dd,
                             mneeds_api = False\<rparr>
                    else Inl (OtherError ''unaligned''))\<rparr>"




section \<open>Properties\<close>

subsection \<open>Trace, heap and return value of the engines\<close>

lemma trace_log_event [simp]: "trace (log_event e w) = trace w @ [e]"
  by (simp add: log_event_def)

lemma hp_log_event [simp]: "hp (log_event e w) = hp w"
  by (simp add: log_event_def)

lemma trace_PyErr_Set [simp]: "trace (PyErr_Set e w) = trace w"
  by (simp add: PyErr_Set_def)

lemma hp_PyErr_Set [simp]: "hp (PyErr_Set e w) = (hp w)\<lparr>pending := Some e\<rparr>"
  by (simp add: PyErr_Set_def)

lemma trace_on_heap [simp]: "trace (on_heap f w) = trace w"
  by (simp add: on_heap_def)

lemma hp_on_heap [simp]: "hp (on_heap f w) = f (hp w)"
  by (simp add: on_heap_def)

lemma trace_fold_rows:
  "trace (fold (\<lambda>d w'. on_heap (f d) (log_event (g d) w')) ds w) = trace w @ map g ds"
  by (induction ds arbitrary: w) simp_all

lemma hp_fold_rows:
  "hp (fold (\<lambda>d w'. on_heap (f d) (log_event (g d) w')) ds w) = fold f ds (hp w)"
  by (induction ds arbitrary: w) simp_all

lemma one_trace:
  "trace (snd (raw_array_assign_scalar ext ndim shape dst_dtype dst_data dst_strides
                  src_dtype src_data w)) =
   trace w @
   (case PrepareOneRawArrayIter ext ndim shape dst_data dst_strides of
      Inl e \<Rightarrow> []
    | Inr it \<Rightarrow>
        GetTransfer (check_alignment ndim dst_dtype dst_data dst_strides src_dtype src_data)
          0 (dst_stride0 it) src_dtype dst_dtype #
        (case GetDTypeTransferFunction ext
                (check_alignment ndim dst_dtype dst_data dst_strides src_dtype src_data)
                0 (dst_stride0 it) src_dtype dst_dtype False of
           Inl e \<Rightarrow> []
         | Inr t \<Rightarrow> one_loop_events ext it t src_data (elsize src_dtype)))"
  by (simp add: raw_array_assign_scalar_def one_loop_events_def nitems_def Let_def trace_fold_rows
        split: sum.splits)

lemma one_hp:
  "hp (snd (raw_array_assign_scalar ext ndim shape dst_dtype dst_data dst_strides
                  src_dtype src_data w)) =
   (case PrepareOneRawArrayIter ext ndim shape dst_data dst_strides of
      Inl e \<Rightarrow> (hp w)\<lparr>pending := Some e\<rparr>
    | Inr it \<Rightarrow>
        (case GetDTypeTransferFunction ext
                (check_alignment ndim dst_dtype dst_data dst_strides src_dtype src_data)
                0 (dst_stride0 it) src_dtype dst_dtype False of
           Inl e \<Rightarrow> (hp w)\<lparr>pending := Some e\<rparr>
         | Inr t \<Rightarrow>
             fold (\<lambda>d. stransfer t d (dst_stride0 it) src_data 0 (shape0 it) (elsize src_dtype))
               (one_rows it) (hp w)))"
  by (simp add: raw_array_assign_scalar_def Let_def hp_fold_rows split: sum.splits)

lemma one_ret:
  "fst (raw_array_assign_scalar ext ndim shape dst_dtype dst_data dst_strides
                  src_dtype src_data w) =
   (case PrepareOneRawArrayIter ext ndim shape dst_data dst_strides of
      Inl e \<Rightarrow> - 1
    | Inr it \<Rightarrow>
        (case GetDTypeTransferFunction ext
                (check_alignment ndim dst_dtype dst_data dst_strides src_dtype src_data)
                0 (dst_stride0 it) src_dtype dst_dtype False of
           Inl e \<Rightarrow> - 1
         | Inr t \<Rightarrow>
             if needs_api t \<and>
                pending (hp (snd (raw_array_assign_scalar ext ndim shape dst_dtype dst_data
                                    dst_strides src_dtype src_data w))) \<noteq> None
             then - 1 else 0))"
  by (simp add: raw_array_assign_scalar_def Let_def split: sum.splits)

lemma two_trace:
  "trace (snd (raw_array_wheremasked_assign_scalar ext ndim shape dst_dtype dst_data dst_strides
                  src_dtype src_data wheremask_dtype wheremask_data wheremask_strides w)) =
   trace w @
   (case PrepareTwoRawArrayIter ext ndim shape dst_data dst_strides
           wheremask_data wheremask_strides of
      Inl e \<Rightarrow> []
    | Inr it \<Rightarrow>
        GetMaskedTransfer (check_alignment ndim dst_dtype dst_data dst_strides src_dtype src_data)
          0 (dst_stride0 (dst_it it)) (mask_stride0 it) src_dtype dst_dtype wheremask_dtype #
        (case GetMaskedDTypeTransferFunction ext
                (check_alignment ndim dst_dtype dst_data dst_strides src_dtype src_data)
                0 (dst_stride0 (dst_it it)) (mask_stride0 it)
                src_dtype dst_dtype wheremask_dtype False of
           Inl e \<Rightarrow> []
         | Inr t \<Rightarrow> two_loop_events ext it t src_data (elsize src_dtype)))"
  by (simp add: raw_array_wheremasked_assign_scalar_def two_loop_events_def nitems_def Let_def
        split_def trace_fold_rows split: sum.splits)

lemma two_hp:
  "hp (snd (raw_array_wheremasked_assign_scalar ext ndim shape dst_dtype dst_data dst_strides
                  src_dtype src_data wheremask_dtype wheremask_data wheremask_strides w)) =
   (case PrepareTwoRawArrayIter ext ndim shape dst_data dst_strides
           wheremask_data wheremask_strides of
      Inl e \<Rightarrow> (hp w)\<lparr>pending := Some e\<rparr>
    | Inr it \<Rightarrow>
        (case GetMaskedDTypeTransferFunction ext
                (check_alignment ndim dst_dtype dst_data dst_strides src_dtype src_data)
                0 (dst_stride0 (dst_it it)) (mask_stride0 it)
                src_dtype dst_dtype wheremask_dtype False of
           Inl e \<Rightarrow> (hp w)\<lparr>pending := Some e\<rparr>
         | Inr t \<Rightarrow>
             fold (\<lambda>(d, m). mstransfer t d (dst_stride0 (dst_it it)) src_data 0 m (mask_stride0 it)
                              (shape0 (dst_it it)) (elsize src_dtype))
               (two_rows it) (hp w)))"
  by (simp add: raw_array_wheremasked_assign_scalar_def Let_def split_def hp_fold_rows
        split: sum.splits)

lemma two_ret:
  "fst (raw_array_wheremasked_assign_scalar ext ndim shape dst_dtype dst_data dst_strides
                  src_dtype src_data wheremask_dtype wheremask_data wheremask_strides w) =
   (case PrepareTwoRawArrayIter ext ndim shape dst_data dst_strides
           wheremask_data wheremask_strides of
      Inl e \<Rightarrow> - 1
    | Inr it \<Rightarrow>
        (case GetMaskedDTypeTransferFunction ext
                (check_alignment ndim dst_dtype dst_data dst_strides src_dtype src_data)
                0 (dst_stride0 (dst_it it)) (mask_stride0 it)
                src_dtype dst_dtype wheremask_dtype False of
           Inl e \<Rightarrow> - 1
         | Inr t \<Rightarrow>
             if mneeds_api t \<and>
                pending (hp (snd (raw_array_wheremasked_assign_scalar ext ndim shape dst_dtype
                   dst_data dst_strides src_dtype src_data wheremask_dtype wheremask_data
                   wheremask_strides w))) \<noteq> None
             then - 1 else 0))"
  by (simp add: raw_array_wheremasked_assign_scalar_def Let_def split: sum.splits)


lemma plain_one_34: "plain_one_iter 2 [3, 4] 0 [16, 4] = Inr plan34"
  by (simp add: plain_one_iter_def plan34_def)

lemma plain_two_34: "plain_two_iter 2 [3, 4] 0 [16, 4] 200 [4, 1] = Inr plan34m"
  by (simp add: plain_two_iter_def plain_one_iter_def plan34_def plan34m_def)

lemma one_rows_plan34: "one_rows plan34 = [0, 16, 32]"
  by (simp add: one_rows_def plan34_def coord_offset_def upt_rec)

lemma two_rows_plan34m: "two_rows plan34m = [(0, 200), (16, 204), (32, 208)]"
  by (simp add: two_rows_def plan34m_def plan34_def coord_offset_def upt_rec)

subsection \<open>Failure of the transfer-function constructor\<close>

text \<open>C6: in both engines, when the transfer-function constructor fails (after the
  normalizer has succeeded), the engine returns \<open>-1\<close> at once: the error of the
  constructor is pending, the byte store is as before the call, and no run of the write
  loop has been started.\<close>

theorem transfer_constructor_failure_aborts:
  "(PrepareOneRawArrayIter ext ndim shape dst_data dst_strides = Inr it \<longrightarrow>
    GetDTypeTransferFunction ext
      (check_alignment ndim dst_dtype dst_data dst_strides src_dtype src_data)
      0 (dst_stride0 it) src_dtype dst_dtype False = Inl e \<longrightarrow>
    (let r = raw_array_assign_scalar ext ndim shape dst_dtype dst_data dst_strides
               src_dtype src_data w
     in fst r = - 1 \<and> mem (hp (snd r)) = mem (hp w) \<and> pending (hp (snd r)) = Some e \<and>
        filter is_write_event (drop (length (trace w)) (trace (snd r))) = []))
   \<and>
   (PrepareTwoRawArrayIter ext ndim shape dst_data dst_strides wm_data wm_strides = Inr it2 \<longrightarrow>
    GetMaskedDTypeTransferFunction ext
      (check_alignment ndim dst_dtype dst_data dst_strides src_dtype src_data)
      0 (dst_stride0 (dst_it it2)) (mask_stride0 it2) src_dtype dst_dtype wm_dtype False
      = Inl e2 \<longrightarrow>
    (let r = raw_array_wheremasked_assign_scalar ext ndim shape dst_dtype dst_data dst_strides
               src_dtype src_data wm_dtype wm_data wm_strides w
     in fst r = - 1 \<and> mem (hp (snd r)) = mem (hp w) \<and> pending (hp (snd r)) = Some e2 \<and>
        filter is_write_event (drop (length (trace w)) (trace (snd r))) = []))"
  by (simp add: Let_def one_ret one_hp one_trace two_ret two_hp two_trace)

theorem transfer_constructor_failure_aborts_witness:
  "(let r = raw_array_assign_scalar failing_ext 2 [3, 4] int32_descr 0 [16, 4] int8_descr 100
              zero_world
    in fst r = - 1 \<and> mem (hp (snd r)) = mem (hp zero_world) \<and>
       pending (hp (snd r)) = Some (OtherError ''no transfer function'') \<and>
       filter is_write_event (drop (length (trace zero_world)) (trace (snd r))) = [])
   \<and>
   (let r = raw_array_wheremasked_assign_scalar failing_ext 2 [3, 4] int32_descr 0 [16, 4]
              int8_descr 100 bool_descr 200 [4, 1] zero_world
    in fst r = - 1 \<and> mem (hp (snd r)) = mem (hp zero_world) \<and>
       pending (hp (snd r)) = Some (OtherError ''no masked transfer function'') \<and>
       filter is_write_event (drop (length (trace zero_world)) (trace (snd r))) = [])"
  using transfer_constructor_failure_aborts [of failing_ext 2 "[3, 4]" 0 "[16, 4]" plan34
      int32_descr int8_descr 100 "OtherError ''no transfer function''" zero_world
      200 "[4, 1]" plan34m bool_descr "OtherError ''no masked transfer function''"]
  by (simp add: failing_ext_def plain_ext_def plain_one_34 plain_two_34)

subsection \<open>Errors raised during the write loop\<close>

text \<open>C7: in both engines, once the transfer function has been obtained, every run of
  the plan is handed to the callback (the heap after the call is the heap after all runs,
  and the trace holds one write event per run, in order), and the engine returns \<open>-1\<close>
  exactly when the callback needs guarded execution and an error is pending after the
  loop, \<open>0\<close> otherwise. The pending error stays in the heap the engine returns.\<close>

theorem engine_fails_iff_guarded_error:
  "(PrepareOneRawArrayIter ext ndim shape dst_data dst_strides = Inr it \<longrightarrow>
    GetDTypeTransferFunction ext
      (check_alignment ndim dst_dtype dst_data dst_strides src_dtype src_data)
      0 (dst_stride0 it) src_dtype dst_dtype False = Inr t \<longrightarrow>
    (let r = raw_array_assign_scalar ext ndim shape dst_dtype dst_data dst_strides
               src_dtype src_data w
     in fst r = (if needs_api t \<and> pending (hp (snd r)) \<noteq> None then - 1 else 0) \<and>
        hp (snd r) =
          fold (\<lambda>d. stransfer t d (dst_stride0 it) src_data 0 (shape0 it) (elsize src_dtype))
            (one_rows it) (hp w) \<and>
        filter is_write_event (drop (length (trace w)) (trace (snd r))) =
          map (\<lambda>d. Transfer d (dst_stride0 it) src_data 0 (shape0 it) (elsize src_dtype))
            (one_rows it)))
   \<and>
   (PrepareTwoRawArrayIter ext ndim shape dst_data dst_strides wm_data wm_strides = Inr it2 \<longrightarrow>
    GetMaskedDTypeTransferFunction ext
      (check_alignment ndim dst_dtype dst_data dst_strides src_dtype src_data)
      0 (dst_stride0 (dst_it it2)) (mask_stride0 it2) src_dtype dst_dtype wm_dtype False
      = Inr t2 \<longrightarrow>
    (let r = raw_array_wheremasked_assign_scalar ext ndim shape dst_dtype dst_data dst_strides
               src_dtype src_data wm_dtype wm_data wm_strides w
     in fst r = (if mneeds_api t2 \<and> pending (hp (snd r)) \<noteq> None then - 1 else 0) \<and>
        hp (snd r) =
          fold (\<lambda>(d, m). mstransfer t2 d (dst_stride0 (dst_it it2)) src_data 0
                           m (mask_stride0 it2) (shape0 (dst_it it2)) (elsize src_dtype))
            (two_rows it2) (hp w) \<and>
        filter is_write_event (drop (length (trace w)) (trace (snd r))) =
          map (\<lambda>(d, m). MaskedTransfer d (dst_stride0 (dst_it it2)) src_data 0
                           m (mask_stride0 it2) (shape0 (dst_it it2)) (elsize src_dtype))
            (two_rows it2)))"
proof -
  have f1: "filter is_write_event (map (\<lambda>d. Transfer d a b c n k) ds) = map (\<lambda>d. Transfer d a b c n k) ds"
    for a b c n k ds
    by (induction ds) simp_all
  have f2: "filter is_write_event (map (\<lambda>(d, m). MaskedTransfer d a b c m q n k) ps)
              = map (\<lambda>(d, m). MaskedTransfer d a b c m q n k) ps"
    for a b c q n k ps
    by (induction ps) (simp_all add: split_def)
  show ?thesis
    by (simp add: Let_def one_ret one_hp one_trace two_ret two_hp two_trace
          one_loop_events_def two_loop_events_def f1 f2)
qed

theorem engine_fails_iff_guarded_error_witness:
  "PrepareOneRawArrayIter raising_ext 2 [3, 4] 0 [16, 4] = Inr plan34
   \<and> GetDTypeTransferFunction raising_ext
        (check_alignment 2 int32_descr 0 [16, 4] int8_descr 100)
        0 (dst_stride0 plan34) int8_descr int32_descr False = Inr raising_xfer
   \<and> fst (raw_array_assign_scalar raising_ext 2 [3, 4] int32_descr 0 [16, 4] int8_descr 100
          zero_world) = - 1
   \<and> pending (hp (snd (raw_array_assign_scalar raising_ext 2 [3, 4] int32_descr 0 [16, 4]
                          int8_descr 100 zero_world))) = Some (OtherError ''bad value'')
   \<and> filter is_write_event
        (drop (length (trace zero_world))
           (trace (snd (raw_array_assign_scalar raising_ext 2 [3, 4] int32_descr 0 [16, 4]
                          int8_descr 100 zero_world)))) =
       [Transfer 0 4 100 0 4 1, Transfer 16 4 100 0 4 1, Transfer 32 4 100 0 4 1]"
proof -
  have h1: "PrepareOneRawArrayIter raising_ext 2 [3, 4] 0 [16, 4] = Inr plan34"
    by (simp add: raising_ext_def plain_ext_def plain_one_34)
  have h2: "GetDTypeTransferFunction raising_ext
              (check_alignment 2 int32_descr 0 [16, 4] int8_descr 100)
              0 (dst_stride0 plan34) int8_descr int32_descr False = Inr raising_xfer"
    by (simp add: raising_ext_def plain_ext_def)
  note c = engine_fails_iff_guarded_error [THEN conjunct1, rule_format, OF h1 h2,
      of zero_world, unfolded Let_def]
  have p: "pending (hp (snd (raw_array_assign_scalar raising_ext 2 [3, 4] int32_descr 0 [16, 4]
                          int8_descr 100 zero_world))) = Some (OtherError ''bad value'')"
    by (simp add: c one_rows_plan34 raising_xfer_def)
  have q: "needs_api raising_xfer"
    by (simp add: raising_xfer_def)
  have e: "elsize int8_descr = 1" "shape0 plan34 = 4" "dst_stride0 plan34 = 4"
    by (simp_all add: int8_descr_def plan34_def)
  show ?thesis using h1 h2 c p q by (simp add: one_rows_plan34 e)
qed

subsection \<open>The alignment flag\<close>

lemma check_alignment_iff:
  "check_alignment ndim dst_dtype dst_data dst_strides src_dtype src_data =
     ((alignment dst_dtype > 1 \<longrightarrow>
         dst_data mod alignment dst_dtype = 0
         \<and> (\<forall>s \<in> set (take ndim dst_strides). s mod alignment dst_dtype = 0))
      \<and> src_data mod alignment src_dtype = 0)"
  by (auto simp add: check_alignment_def raw_array_is_aligned_def npy_is_aligned_def Let_def
        list_all_iff)

text \<open>C8: in both engines the first thing done after normalization is the call of the
  transfer-function selector, and the outcome of the engine is computed from what the
  selector answers at one alignment flag: the flag that is true exactly when the
  destination's base pointer and each of its \<open>ndim\<close> strides are multiples of the
  destination type's alignment (a requirement of at most one byte always holds) and the
  scalar pointer is a multiple of the scalar type's alignment. If the selector fails at
  that flag the engine returns \<open>-1\<close> with the selector's error; if it returns a callback
  there, the heap is the one that callback leaves after all runs. The logged call names
  the same flag.\<close>

theorem alignment_flag_passed_to_selector:
  "(PrepareOneRawArrayIter ext ndim shape dst_data dst_strides = Inr it \<longrightarrow>
    (let flag = ((alignment dst_dtype > 1 \<longrightarrow>
                    dst_data mod alignment dst_dtype = 0
                    \<and> (\<forall>s \<in> set (take ndim dst_strides). s mod alignment dst_dtype = 0))
                 \<and> src_data mod alignment src_dtype = 0);
         r = raw_array_assign_scalar ext ndim shape dst_dtype dst_data dst_strides
               src_dtype src_data w
     in take 1 (drop (length (trace w)) (trace (snd r))) =
          [GetTransfer flag 0 (dst_stride0 it) src_dtype dst_dtype]
        \<and> (case GetDTypeTransferFunction ext flag 0 (dst_stride0 it) src_dtype dst_dtype False of
              Inl e \<Rightarrow> fst r = - 1 \<and> hp (snd r) = (hp w)\<lparr>pending := Some e\<rparr>
            | Inr t \<Rightarrow>
                fst r = (if needs_api t \<and> pending (hp (snd r)) \<noteq> None then - 1 else 0)
                \<and> hp (snd r) =
                    fold (\<lambda>d. stransfer t d (dst_stride0 it) src_data 0 (shape0 it)
                                (elsize src_dtype))
                      (one_rows it) (hp w))))
   \<and>
   (PrepareTwoRawArrayIter ext ndim shape dst_data dst_strides wm_data wm_strides = Inr it2 \<longrightarrow>
    (let flag = ((alignment dst_dtype > 1 \<longrightarrow>
                    dst_data mod alignment dst_dtype = 0
                    \<and> (\<forall>s \<in> set (take ndim dst_strides). s mod alignment dst_dtype = 0))
                 \<and> src_data mod alignment src_dtype = 0);
         r = raw_array_wheremasked_assign_scalar ext ndim shape dst_dtype dst_data dst_strides
               src_dtype src_data wm_dtype wm_data wm_strides w
     in take 1 (drop (length (trace w)) (trace (snd r))) =
          [GetMaskedTransfer flag 0 (dst_stride0 (dst_it it2)) (mask_stride0 it2)
             src_dtype dst_dtype wm_dtype]
        \<and> (case GetMaskedDTypeTransferFunction ext flag 0 (dst_stride0 (dst_it it2))
                   (mask_stride0 it2) src_dtype dst_dtype wm_dtype False of
              Inl e \<Rightarrow> fst r = - 1 \<and> hp (snd r) = (hp w)\<lparr>pending := Some e\<rparr>
            | Inr t \<Rightarrow>
                fst r = (if mneeds_api t \<and> pending (hp (snd r)) \<noteq> None then - 1 else 0)
                \<and> hp (snd r) =
                    fold (\<lambda>(d, m). mstransfer t d (dst_stride0 (dst_it it2)) src_data 0
                                     m (mask_stride0 it2) (shape0 (dst_it it2))
                                     (elsize src_dtype))
                      (two_rows it2) (hp w))))"
  by (simp add: Let_def one_trace two_trace one_ret one_hp two_ret two_hp
        check_alignment_iff [symmetric] split: sum.splits)

theorem alignment_flag_passed_to_selector_witness:
  "PrepareOneRawArrayIter picky_ext 2 [3, 4] 0 [16, 4] = Inr plan34
   \<and> fst (raw_array_assign_scalar picky_ext 2 [3, 4] int32_descr 0 [16, 4]
            int32_descr 100 zero_world) = 0
   \<and> fst (raw_array_assign_scalar picky_ext 2 [3, 4] int32_descr 0 [16, 4]
            int32_descr 101 zero_world) = - 1
   \<and> hp (snd (raw_array_assign_scalar picky_ext 2 [3, 4] int32_descr 0 [16, 4]
                 int32_descr 101 zero_world))
       = (hp zero_world)\<lparr>pending := Some (OtherError ''unaligned'')\<rparr>
   \<and> take 1 (drop (length (trace zero_world))
        (trace (snd (raw_array_assign_scalar picky_ext 2 [3, 4] int32_descr 0 [16, 4]
                       int32_descr 101 zero_world))))
       = [GetTransfer False 0 4 int32_descr int32_descr]
   \<and> PrepareOneRawArrayIter picky_ext 2 [3, 4] 2 [16, 4] = Inr (plan34\<lparr>dst_base := 2\<rparr>)
   \<and> fst (raw_array_assign_scalar picky_ext 2 [3, 4] int32_descr 2 [16, 4]
            int32_descr 100 zero_world) = - 1"
proof -
  have h1: "PrepareOneRawArrayIter picky_ext 2 [3, 4] 0 [16, 4] = Inr plan34"
    by (simp add: picky_ext_def plain_ext_def plain_one_34)
  have h2: "PrepareOneRawArrayIter picky_ext 2 [3, 4] 2 [16, 4] = Inr (plan34\<lparr>dst_base := 2\<rparr>)"
    by (simp add: picky_ext_def plain_ext_def plain_one_iter_def plan34_def)
  have g: "GetDTypeTransferFunction picky_ext al ss ds sd dd mv =
             (if al then Inr \<lparr>stransfer = strided_transfer widen sd dd, needs_api = False\<rparr>
              else Inl (OtherError ''unaligned''))" for al ss ds sd dd mv
    by (simp add: picky_ext_def plain_ext_def)
  have d: "alignment int32_descr = 4" "dst_stride0 plan34 = 4"
    "dst_stride0 (plan34\<lparr>dst_base := 2\<rparr>) = 4"
    by (simp_all add: int32_descr_def plan34_def)
  note a = alignment_flag_passed_to_selector [where dst_dtype = int32_descr
      and src_dtype = int32_descr and src_data = 100 and w = zero_world,
      THEN conjunct1, rule_format, OF h1, unfolded Let_def]
  note b = alignment_flag_passed_to_selector [where dst_dtype = int32_descr
      and src_dtype = int32_descr and src_data = 101 and w = zero_world,
      THEN conjunct1, rule_format, OF h1, unfolded Let_def]
  note c = alignment_flag_passed_to_selector [where dst_dtype = int32_descr
      and src_dtype = int32_descr and src_data = 100 and w = zero_world,
      THEN conjunct1, rule_format, OF h2, unfolded Let_def]
  have a': "fst (raw_array_assign_scalar picky_ext 2 [3, 4] int32_descr 0 [16, 4]
            int32_descr 100 zero_world) = 0"
    using a by (simp add: g d)
  have b': "fst (raw_array_assign_scalar picky_ext 2 [3, 4] int32_descr 0 [16, 4]
            int32_descr 101 zero_world) = - 1
     \<and> hp (snd (raw_array_assign_scalar picky_ext 2 [3, 4] int32_descr 0 [16, 4]
                 int32_descr 101 zero_world))
       = (hp zero_world)\<lparr>pending := Some (OtherError ''unaligned'')\<rparr>
     \<and> take 1 (drop (length (trace zero_world))
        (trace (snd (raw_array_assign_scalar picky_ext 2 [3, 4] int32_descr 0 [16, 4]
                       int32_descr 101 zero_world))))
       = [GetTransfer False 0 4 int32_descr int32_descr]"
    using b by (simp add: g d)
  have c': "fst (raw_array_assign_scalar picky_ext 2 [3, 4] int32_descr 2 [16, 4]
            int32_descr 100 zero_world) = - 1"
    using c by (simp add: g d)
  show ?thesis
    using h1 h2 a' b' c' by simp
qed

subsection \<open>Release of the lock\<close>

lemma plain_one_2x500: "plain_one_iter 2 [2, 500] 0 [4000, 8] = Inr plan2x500"
  by (simp add: plain_one_iter_def plan2x500_def)

lemma one_rows_plan2x500: "one_rows plan2x500 = [0, 4000]"
  by (simp add: one_rows_def plan2x500_def coord_offset_def upt_rec)

text \<open>C9: the trace of each engine. The call of the transfer-function constructor comes
  first. Only when it has succeeded, the callback does not need guarded execution, and
  the product of all extents of the plan exceeds the threshold, the lock is released
  (\<open>SaveThread\<close>) before the first run and taken again (\<open>RestoreThread\<close>) after the last
  run; in every other case the trace holds no lock event.\<close>

theorem lock_released_only_over_threshold:
  "trace (snd (raw_array_assign_scalar ext ndim shape dst_dtype dst_data dst_strides
                  src_dtype src_data w)) =
   trace w @
   (case PrepareOneRawArrayIter ext ndim shape dst_data dst_strides of
      Inl e \<Rightarrow> []
    | Inr it \<Rightarrow>
        GetTransfer (check_alignment ndim dst_dtype dst_data dst_strides src_dtype src_data)
          0 (dst_stride0 it) src_dtype dst_dtype #
        (case GetDTypeTransferFunction ext
                (check_alignment ndim dst_dtype dst_data dst_strides src_dtype src_data)
                0 (dst_stride0 it) src_dtype dst_dtype False of
           Inl e \<Rightarrow> []
         | Inr t \<Rightarrow>
            (if \<not> needs_api t \<and> prod_list (shape0 it # shape_outer it) > threads_threshold ext
             then [SaveThread] @
                  map (\<lambda>d. Transfer d (dst_stride0 it) src_data 0 (shape0 it) (elsize src_dtype))
                    (one_rows it) @
                  [RestoreThread]
             else map (\<lambda>d. Transfer d (dst_stride0 it) src_data 0 (shape0 it) (elsize src_dtype))
                    (one_rows it))))
   \<and>
   trace (snd (raw_array_wheremasked_assign_scalar ext ndim shape dst_dtype dst_data dst_strides
                  src_dtype src_data wm_dtype wm_data wm_strides w)) =
   trace w @
   (case PrepareTwoRawArrayIter ext ndim shape dst_data dst_strides wm_data wm_strides of
      Inl e \<Rightarrow> []
    | Inr it \<Rightarrow>
        GetMaskedTransfer
          (check_alignment ndim dst_dtype dst_data dst_strides src_dtype src_data)
          0 (dst_stride0 (dst_it it)) (mask_stride0 it) src_dtype dst_dtype wm_dtype #
        (case GetMaskedDTypeTransferFunction ext
                (check_alignment ndim dst_dtype dst_data dst_strides src_dtype src_data)
                0 (dst_stride0 (dst_it it)) (mask_stride0 it)
                src_dtype dst_dtype wm_dtype False of
           Inl e \<Rightarrow> []
         | Inr t \<Rightarrow>
            (if \<not> mneeds_api t
                \<and> prod_list (shape0 (dst_it it) # shape_outer (dst_it it)) > threads_threshold ext
             then [SaveThread] @
                  map (\<lambda>(d, m). MaskedTransfer d (dst_stride0 (dst_it it)) src_data 0
                                  m (mask_stride0 it) (shape0 (dst_it it)) (elsize src_dtype))
                    (two_rows it) @
                  [RestoreThread]
             else map (\<lambda>(d, m). MaskedTransfer d (dst_stride0 (dst_it it)) src_data 0
                                  m (mask_stride0 it) (shape0 (dst_it it)) (elsize src_dtype))
                    (two_rows it))))"
  by (simp add: one_trace two_trace one_loop_events_def two_loop_events_def Let_def
        split: sum.splits)

theorem lock_released_only_over_threshold_witness:
  "trace (snd (raw_array_assign_scalar plain_ext 2 [2, 500] int32_descr 0 [4000, 8]
                  int32_descr 100 zero_world)) =
     [GetTransfer True 0 8 int32_descr int32_descr, SaveThread,
      Transfer 0 8 100 0 500 4, Transfer 4000 8 100 0 500 4, RestoreThread]
   \<and> trace (snd (raw_array_assign_scalar plain_ext 2 [3, 4] int32_descr 0 [16, 4]
                  int32_descr 100 zero_world)) =
     [GetTransfer True 0 4 int32_descr int32_descr,
      Transfer 0 4 100 0 4 4, Transfer 16 4 100 0 4 4, Transfer 32 4 100 0 4 4]
   \<and> trace (snd (raw_array_assign_scalar plain_ext 2 [2, 500] object_descr 0 [4000, 8]
                  object_descr 96 zero_world)) =
     [GetTransfer True 0 8 object_descr object_descr,
      Transfer 0 8 96 0 500 8, Transfer 4000 8 96 0 500 8]"
proof -
  have h1: "PrepareOneRawArrayIter plain_ext 2 [2, 500] 0 [4000, 8] = Inr plan2x500"
    by (simp add: plain_ext_def plain_one_2x500)
  have h2: "PrepareOneRawArrayIter plain_ext 2 [3, 4] 0 [16, 4] = Inr plan34"
    by (simp add: plain_ext_def plain_one_34)
  have g: "GetDTypeTransferFunction plain_ext a b c sd dd mv =
            Inr \<lparr>stransfer = strided_transfer widen sd dd, needs_api = refchk sd \<or> refchk dd\<rparr>"
    "threads_threshold plain_ext = 500"
    for a b c sd dd mv
    by (simp_all add: plain_ext_def)
  have al: "check_alignment 2 int32_descr 0 [4000, 8] int32_descr 100"
    "check_alignment 2 int32_descr 0 [16, 4] int32_descr 100"
    "check_alignment 2 object_descr 0 [4000, 8] object_descr 96"
    by (simp_all add: check_alignment_def raw_array_is_aligned_def npy_is_aligned_def
          int32_descr_def object_descr_def)
  have d: "refchk int32_descr = False" "refchk object_descr = True" "elsize int32_descr = 4"
    "elsize object_descr = 8"
    by (simp_all add: int32_descr_def object_descr_def)
  have f: "shape0 plan2x500 = 500" "dst_stride0 plan2x500 = 8" "shape_outer plan2x500 = [2]"
    "shape0 plan34 = 4" "dst_stride0 plan34 = 4" "shape_outer plan34 = [3]"
    by (simp_all add: plan2x500_def plan34_def)
  note a = lock_released_only_over_threshold [THEN conjunct1,
      of plain_ext 2 "[2, 500]" int32_descr 0 "[4000, 8]" int32_descr 100 zero_world]
  note b = lock_released_only_over_threshold [THEN conjunct1,
      of plain_ext 2 "[3, 4]" int32_descr 0 "[16, 4]" int32_descr 100 zero_world]
  note c = lock_released_only_over_threshold [THEN conjunct1,
      of plain_ext 2 "[2, 500]" object_descr 0 "[4000, 8]" object_descr 96 zero_world]
  have t: "trace zero_world = []" by (simp add: zero_world_def)
  show ?thesis
    unfolding a b c
    by (simp add: h1 h2 g al d f t one_rows_plan2x500 one_rows_plan34)
qed

subsection \<open>The events of the orchestrator\<close>

lemma stage_trace:
  "trace (st_world (stage_scalar ext dst src_dtype src_data w)) =
   trace w @ stage_events ext dst src_dtype src_data w"
  by (simp add: stage_scalar_def stage_events_def Let_def split: option.splits prod.splits)

lemma stage_allocated:
  "allocated_src_data (stage_scalar ext dst src_dtype src_data w) =
   (needs_staging ext dst src_dtype src_data
    \<and> \<not> sizeof_scalarbuffer \<ge> elsize (PyArray_DESCR dst)
    \<and> PyArray_malloc ext (elsize (PyArray_DESCR dst)) w \<noteq> None)"
  by (simp add: stage_scalar_def Let_def split: option.splits prod.splits)

lemma stage_src_data_allocated:
  "allocated_src_data (stage_scalar ext dst src_dtype src_data w) \<Longrightarrow>
   PyArray_malloc ext (elsize (PyArray_DESCR dst)) w =
     Some (st_src_data (stage_scalar ext dst src_dtype src_data w))"
  by (simp add: stage_scalar_def Let_def split: option.splits prod.splits if_splits)

lemma reads_Nil [simp]: "mallocs [] = []" "frees [] = []" "src_dtypes [] = []" "src_ptrs [] = []"
  by (simp_all add: mallocs_def frees_def src_dtypes_def src_ptrs_def)

lemma reads_Cons [simp]:
  "mallocs (e # evs) = allocated e @ mallocs evs"
  "frees (e # evs) = freed e @ frees evs"
  "src_dtypes (e # evs) = event_src_dtype e @ src_dtypes evs"
  "src_ptrs (e # evs) = event_src_data e @ src_ptrs evs"
  by (simp_all add: mallocs_def frees_def src_dtypes_def src_ptrs_def)

lemma reads_append [simp]:
  "mallocs (xs @ ys) = mallocs xs @ mallocs ys"
  "frees (xs @ ys) = frees xs @ frees ys"
  "src_dtypes (xs @ ys) = src_dtypes xs @ src_dtypes ys"
  "src_ptrs (xs @ ys) = src_ptrs xs @ src_ptrs ys"
  by (simp_all add: mallocs_def frees_def src_dtypes_def src_ptrs_def)

lemma reads_one_rows [simp]:
  "mallocs (map (\<lambda>d. Transfer d a b c n k) ds) = []"
  "frees (map (\<lambda>d. Transfer d a b c n k) ds) = []"
  "src_dtypes (map (\<lambda>d. Transfer d a b c n k) ds) = []"
  "set (src_ptrs (map (\<lambda>d. Transfer d a b c n k) ds)) \<subseteq> {b}"
  "list_all is_engine_event (map (\<lambda>d. Transfer d a b c n k) ds)"
  by (induction ds) simp_all

lemma reads_two_rows [simp]:
  "mallocs (map (\<lambda>(d, m). MaskedTransfer d a b c m q n k) ps) = []"
  "frees (map (\<lambda>(d, m). MaskedTransfer d a b c m q n k) ps) = []"
  "src_dtypes (map (\<lambda>(d, m). MaskedTransfer d a b c m q n k) ps) = []"
  "set (src_ptrs (map (\<lambda>(d, m). MaskedTransfer d a b c m q n k) ps)) \<subseteq> {b}"
  "list_all is_engine_event (map (\<lambda>(d, m). MaskedTransfer d a b c m q n k) ps)"
  by (induction ps) (simp_all add: split_def)

lemma one_events:
  "\<exists>evs. trace (snd (raw_array_assign_scalar ext ndim shape dst_dtype dst_data dst_strides
                  src_dtype src_data w)) = trace w @ evs
     \<and> list_all is_engine_event evs
     \<and> set (src_dtypes evs) \<subseteq> {src_dtype}
     \<and> set (src_ptrs evs) \<subseteq> {src_data}"
  by (simp add: one_trace one_loop_events_def Let_def split: sum.splits)

lemma two_events:
  "\<exists>evs. trace (snd (raw_array_wheremasked_assign_scalar ext ndim shape dst_dtype dst_data
                  dst_strides src_dtype src_data wm_dtype wm_data wm_strides w)) = trace w @ evs
     \<and> list_all is_engine_event evs
     \<and> set (src_dtypes evs) \<subseteq> {src_dtype}
     \<and> set (src_ptrs evs) \<subseteq> {src_data}"
  by (simp add: two_trace two_loop_events_def Let_def split: sum.splits)

lemma dispatch_events:
  "\<exists>evs. trace (snd (dispatch ext dst src_dtype src_data wheremask w)) = trace w @ evs
     \<and> list_all is_engine_event evs
     \<and> set (src_dtypes evs) \<subseteq> {src_dtype}
     \<and> set (src_ptrs evs) \<subseteq> {src_data}"
proof (cases wheremask)
  case None
  then show ?thesis using one_events by (simp add: dispatch_def)
next
  case (Some wm)
  then show ?thesis using two_events by (simp add: dispatch_def split: sum.splits)
qed

lemma writeable_check [simp]:
  "(PyArray_FailUnlessWriteable a name = None) = writeable a"
  by (simp add: PyArray_FailUnlessWriteable_def)

lemma assign_events:
  "\<exists>evs.
     trace (snd (PyArray_AssignRawScalar ext dst src_dtype src_data wheremask casting w)) =
       trace w @
       (if writeable dst
           \<and> can_cast_scalar_to ext src_dtype src_data (hp w) (PyArray_DESCR dst) casting
        then stage_events ext dst src_dtype src_data w @ evs @
             (if allocated_src_data (stage_scalar ext dst src_dtype src_data w)
              then [Free (st_src_data (stage_scalar ext dst src_dtype src_data w))] else [])
        else [])
     \<and> list_all is_engine_event evs
     \<and> set (src_dtypes evs) \<subseteq> {st_src_dtype (stage_scalar ext dst src_dtype src_data w)}
     \<and> set (src_ptrs evs) \<subseteq> {st_src_data (stage_scalar ext dst src_dtype src_data w)}
     \<and> (\<not> continue (stage_scalar ext dst src_dtype src_data w) \<longrightarrow> evs = [])"
proof -
  let ?st = "stage_scalar ext dst src_dtype src_data w"
  obtain evs where evs:
    "trace (snd (dispatch ext dst (st_src_dtype ?st) (st_src_data ?st) wheremask (st_world ?st)))
       = trace (st_world ?st) @ evs"
    "list_all is_engine_event evs"
    "set (src_dtypes evs) \<subseteq> {st_src_dtype ?st}"
    "set (src_ptrs evs) \<subseteq> {st_src_data ?st}"
    using dispatch_events by blast
  show ?thesis
  proof (cases "continue ?st")
    case True
    with evs show ?thesis
      by (intro exI [of _ evs])
        (simp add: PyArray_AssignRawScalar_def PyArray_FailUnlessWriteable_def Let_def
           split_def stage_trace)
  next
    case False
    then show ?thesis
      by (intro exI [of _ "[]"])
        (simp add: PyArray_AssignRawScalar_def PyArray_FailUnlessWriteable_def Let_def
           split_def stage_trace)
  qed
qed

lemma engine_events_no_alloc:
  "list_all is_engine_event evs \<Longrightarrow>
   frees evs = [] \<and> mallocs evs = [] \<and> filter is_stage_event evs = []"
proof (induction evs)
  case Nil
  then show ?case by simp
next
  case (Cons e evs)
  then show ?case by (cases e) simp_all
qed

lemma stage_events_alloc:
  "frees (stage_events ext dst src_dtype src_data w) = []"
  "mallocs (stage_events ext dst src_dtype src_data w) =
     (if needs_staging ext dst src_dtype src_data
         \<and> \<not> sizeof_scalarbuffer \<ge> elsize (PyArray_DESCR dst)
      then (case PyArray_malloc ext (elsize (PyArray_DESCR dst)) w of
              None \<Rightarrow> [] | Some p \<Rightarrow> [p])
      else [])"
  by (simp_all add: stage_events_def split: option.splits)



lemma coords_empty: "prod_list ns = 0 \<Longrightarrow> raw_iter_coords ns = []"
  by (induction ns) auto

lemma fold_id: "(\<And>x. x \<in> set xs \<Longrightarrow> f x = (\<lambda>h. h)) \<Longrightarrow> fold f xs h = h"
  by (induction xs) simp_all

lemma one_ret_range:
  "fst (raw_array_assign_scalar ext ndim shape dst_dtype dst_data dst_strides
          src_dtype src_data w) \<in> {- 1, 0}"
  by (simp add: one_ret split: sum.splits)

lemma two_ret_range:
  "fst (raw_array_wheremasked_assign_scalar ext ndim shape dst_dtype dst_data dst_strides
          src_dtype src_data wm_dtype wm_data wm_strides w) \<in> {- 1, 0}"
  by (simp add: two_ret split: sum.splits)

lemma dispatch_ret_range: "fst (dispatch ext dst src_dtype src_data wheremask w) \<in> {- 1, 0}"
  using one_ret_range two_ret_range
  by (simp add: dispatch_def split: option.splits sum.splits)

lemma no_staging_assign:
  assumes "writeable dst"
    and "can_cast_scalar_to ext src_dtype src_data (hp w) (PyArray_DESCR dst) casting"
    and "\<not> needs_staging ext dst src_dtype src_data"
  shows "PyArray_AssignRawScalar ext dst src_dtype src_data wheremask casting w =
         dispatch ext dst src_dtype src_data wheremask w"
proof -
  have "fst (dispatch ext dst src_dtype src_data wheremask w) \<in> {- 1, 0}"
    by (rule dispatch_ret_range)
  then have "(if fst (dispatch ext dst src_dtype src_data wheremask w) < 0 then - 1 else 0)
             = fst (dispatch ext dst src_dtype src_data wheremask w)"
    by auto
  with assms show ?thesis
    by (simp add: PyArray_AssignRawScalar_def PyArray_FailUnlessWriteable_def stage_scalar_def
          Let_def split_def)
qed

subsection \<open>Release of the staged buffer\<close>

text \<open>C3: on every path through \<open>PyArray_AssignRawScalar\<close> the buffers freed by the call
  are exactly the buffers it obtained from the allocator, in the same number: one free of
  the allocated address when the call reached the staging block, the destination element
  did not fit the inline buffer and the allocation was granted; no free at all otherwise
  (early failure, no staging, inline buffer, failed allocation). The engines, the mask
  broadcast and the conversion neither allocate nor free, whether they fail or not.\<close>

theorem staged_buffer_freed_once:
  "(let new = drop (length (trace w))
                (trace (snd (PyArray_AssignRawScalar ext dst src_dtype src_data wheremask
                               casting w)))
    in frees new = mallocs new
       \<and> mallocs new =
           (if writeable dst
               \<and> can_cast_scalar_to ext src_dtype src_data (hp w) (PyArray_DESCR dst) casting
               \<and> needs_staging ext dst src_dtype src_data
               \<and> elsize (PyArray_DESCR dst) > sizeof_scalarbuffer
            then (case PyArray_malloc ext (elsize (PyArray_DESCR dst)) w of
                    None \<Rightarrow> [] | Some p \<Rightarrow> [p])
            else []))"
proof -
  let ?st = "stage_scalar ext dst src_dtype src_data w"
  obtain evs where evs:
    "trace (snd (PyArray_AssignRawScalar ext dst src_dtype src_data wheremask casting w)) =
       trace w @
       (if writeable dst
           \<and> can_cast_scalar_to ext src_dtype src_data (hp w) (PyArray_DESCR dst) casting
        then stage_events ext dst src_dtype src_data w @ evs @
             (if allocated_src_data ?st then [Free (st_src_data ?st)] else [])
        else [])"
    "list_all is_engine_event evs"
    using assign_events by blast
  have a: "allocated_src_data ?st \<Longrightarrow>
           PyArray_malloc ext (elsize (PyArray_DESCR dst)) w = Some (st_src_data ?st)"
    by (rule stage_src_data_allocated)
  have b: "allocated_src_data ?st =
           (needs_staging ext dst src_dtype src_data
            \<and> \<not> sizeof_scalarbuffer \<ge> elsize (PyArray_DESCR dst)
            \<and> PyArray_malloc ext (elsize (PyArray_DESCR dst)) w \<noteq> None)"
    by (rule stage_allocated)
  show ?thesis
    using engine_events_no_alloc [OF evs(2)] a b
    by (auto simp add: evs(1) Let_def stage_events_alloc split: option.splits)
qed

theorem staged_buffer_freed_once_witness:
  "(let new = drop (length (trace zero_world))
                (trace (snd (PyArray_AssignRawScalar plain_ext str34 int8_descr 100 (Some mask34)
                               NPY_UNSAFE_CASTING zero_world)))
    in frees new = [2000] \<and> mallocs new = [2000])
   \<and> (let new = drop (length (trace zero_world))
                (trace (snd (PyArray_AssignRawScalar plain_ext dst34 int8_descr 100 None
                               NPY_UNSAFE_CASTING zero_world)))
    in frees new = [] \<and> mallocs new = [])"
proof -
  have a: "writeable str34" "writeable dst34"
    "can_cast_scalar_to plain_ext int8_descr 100 (hp zero_world) d NPY_UNSAFE_CASTING"
    "needs_staging plain_ext str34 int8_descr 100"
    "elsize (PyArray_DESCR str34) > sizeof_scalarbuffer"
    "\<not> elsize (PyArray_DESCR dst34) > sizeof_scalarbuffer"
    "PyArray_malloc plain_ext n w = Some 2000" for d n w
    by (simp_all add: str34_def dst34_def plain_ext_def needs_staging_def PyArray_SIZE_def
          string40_descr_def int8_descr_def int32_descr_def sizeof_scalarbuffer_def
          npy_is_aligned_def)
  show ?thesis
    using staged_buffer_freed_once [of zero_world plain_ext str34 int8_descr 100 "Some mask34"
        NPY_UNSAFE_CASTING]
      staged_buffer_freed_once [of zero_world plain_ext dst34 int8_descr 100 None
        NPY_UNSAFE_CASTING]
    by (simp add: a Let_def)
qed

subsection \<open>Rejection by the cast-safety check\<close>

text \<open>C1, as amended: for a writable destination, when the cast-safety predicate rejects
  the scalar, the call returns \<open>-1\<close> with a pending type error whose message names the
  representation of the source type, the representation of the destination type and the
  name of the casting rule; the byte store is unchanged and no event is recorded (no
  staging, no iteration).\<close>

theorem cast_rejected_type_error:
  "writeable dst \<Longrightarrow>
   \<not> can_cast_scalar_to ext src_dtype src_data (hp w) (PyArray_DESCR dst) casting \<Longrightarrow>
   (let r = PyArray_AssignRawScalar ext dst src_dtype src_data wheremask casting w
    in fst r = - 1
       \<and> pending (hp (snd r)) =
           Some (TypeError (''Cannot cast scalar from '' @ descr_repr ext src_dtype @ '' to '' @
                            descr_repr ext (PyArray_DESCR dst) @ '' according to the rule '' @
                            npy_casting_to_string ext casting))
       \<and> mem (hp (snd r)) = mem (hp w)
       \<and> trace (snd r) = trace w)"
  by (simp add: PyArray_AssignRawScalar_def PyArray_FailUnlessWriteable_def cast_errmsg_def
        Let_def)

theorem cast_rejected_type_error_witness:
  "writeable ubyte34
   \<and> \<not> can_cast_scalar_to plain_ext int8_descr 100 (hp neg_world) (PyArray_DESCR ubyte34)
         NPY_SAFE_CASTING
   \<and> (let r = PyArray_AssignRawScalar plain_ext ubyte34 int8_descr 100 None NPY_SAFE_CASTING
                neg_world
      in fst r = - 1
         \<and> pending (hp (snd r)) =
             Some (TypeError ''Cannot cast scalar from dtype(i) to dtype(ii) according to the rule safe'')
         \<and> mem (hp (snd r)) = mem (hp neg_world)
         \<and> trace (snd r) = [])"
proof -
  have h1: "writeable ubyte34"
    by (simp add: ubyte34_def)
  have h2: "\<not> can_cast_scalar_to plain_ext int8_descr 100 (hp neg_world) (PyArray_DESCR ubyte34)
               NPY_SAFE_CASTING"
    by (simp add: plain_ext_def ubyte34_def int8_descr_def uint8_descr_def neg_world_def)
  have r: "descr_repr plain_ext int8_descr = ''dtype(i)''"
    "descr_repr plain_ext (PyArray_DESCR ubyte34) = ''dtype(ii)''"
    "npy_casting_to_string plain_ext NPY_SAFE_CASTING = ''safe''"
    "trace neg_world = []"
    by (simp_all add: plain_ext_def ubyte34_def int8_descr_def uint8_descr_def neg_world_def
          numeral_2_eq_2)
  show ?thesis
    using h1 h2 cast_rejected_type_error [OF h1 h2, of None]
    by (simp add: r Let_def)
qed

text \<open>The writability check comes first: with a read-only destination a scalar that the
  cast-safety predicate rejects gives the not-writable error, not a type error.\<close>

theorem cast_rejected_readonly_counterexample:
  "\<not> can_cast_scalar_to plain_ext int8_descr 100 (hp neg_world) (PyArray_DESCR ro_ubyte34)
       NPY_SAFE_CASTING
   \<and> PyArray_AssignRawScalar plain_ext ro_ubyte34 int8_descr 100 None NPY_SAFE_CASTING neg_world
       = (- 1, PyErr_Set (ValueError ''assignment destination is read-only'') neg_world)"
  by (simp add: PyArray_AssignRawScalar_def PyArray_FailUnlessWriteable_def plain_ext_def
        ro_ubyte34_def ubyte34_def int8_descr_def uint8_descr_def neg_world_def)

subsection \<open>When the scalar is staged\<close>




subsection \<open>Destinations without elements\<close>

lemma zero_plan_rows:
  assumes "prod_list (n0 # outer) = (0::int)"
    and "\<And>d h. f d 0 h = h"
  shows "fold (\<lambda>d. f d n0) (map g (raw_iter_coords outer)) h = h"
proof (cases "n0 = 0")
  case True
  have "(\<lambda>d. f d 0) = (\<lambda>d h. h)"
    using assms(2) by (intro ext) simp
  with True show ?thesis by (simp add: fold_id)
next
  case False
  with assms(1) have "prod_list outer = 0" by simp
  then show ?thesis by (simp add: coords_empty)
qed

text \<open>C10: for a destination whose extents multiply to zero, \<open>PyArray_AssignRawScalar\<close>
  still checks writability and cast safety, in that order, and returns \<open>-1\<close> with the
  not-writable error or the type error when one of them rejects, touching neither the
  store nor the trace. When both pass, nothing is staged (no conversion, no allocation, no
  free) and the engines get the caller's scalar. When moreover the normalizer returns a
  plan without elements, the transfer function is obtained, a transfer of zero elements
  writes nothing, and no error is pending beforehand, the call returns \<open>0\<close> with the heap
  as it was; this holds without a mask and with one.\<close>

theorem zero_size_destination:
  "PyArray_SIZE dst = 0 \<Longrightarrow>
   (let r = PyArray_AssignRawScalar ext dst src_dtype src_data wheremask casting w;
        new = drop (length (trace w)) (trace (snd r))
    in (\<not> writeable dst \<longrightarrow>
          fst r = - 1
          \<and> pending (hp (snd r)) = Some (ValueError ''assignment destination is read-only'')
          \<and> mem (hp (snd r)) = mem (hp w) \<and> new = [])
       \<and> (writeable dst
            \<and> \<not> can_cast_scalar_to ext src_dtype src_data (hp w) (PyArray_DESCR dst) casting \<longrightarrow>
          fst r = - 1
          \<and> pending (hp (snd r)) =
              Some (TypeError (cast_errmsg ext src_dtype (PyArray_DESCR dst) casting))
          \<and> mem (hp (snd r)) = mem (hp w) \<and> new = [])
       \<and> (writeable dst
            \<and> can_cast_scalar_to ext src_dtype src_data (hp w) (PyArray_DESCR dst) casting \<longrightarrow>
          filter is_stage_event new = [] \<and> mallocs new = [] \<and> frees new = []
          \<and> set (src_dtypes new) \<subseteq> {src_dtype} \<and> set (src_ptrs new) \<subseteq> {src_data})
       \<and> (writeable dst
            \<and> can_cast_scalar_to ext src_dtype src_data (hp w) (PyArray_DESCR dst) casting
            \<and> wheremask = None
            \<and> PrepareOneRawArrayIter ext (PyArray_NDIM dst) (PyArray_DIMS dst)
                 (PyArray_DATA dst) (PyArray_STRIDES dst) = Inr it
            \<and> prod_list (shape0 it # shape_outer it) = 0
            \<and> GetDTypeTransferFunction ext
                 (check_alignment (PyArray_NDIM dst) (PyArray_DESCR dst) (PyArray_DATA dst)
                    (PyArray_STRIDES dst) src_dtype src_data)
                 0 (dst_stride0 it) src_dtype (PyArray_DESCR dst) False = Inr t
            \<and> (\<forall>d h. stransfer t d (dst_stride0 it) src_data 0 0 (elsize src_dtype) h = h)
            \<and> pending (hp w) = None \<longrightarrow>
          fst r = 0 \<and> hp (snd r) = hp w)
       \<and> (writeable dst
            \<and> can_cast_scalar_to ext src_dtype src_data (hp w) (PyArray_DESCR dst) casting
            \<and> wheremask = Some wm
            \<and> broadcast_strides ext (PyArray_NDIM dst) (PyArray_DIMS dst) (PyArray_NDIM wm)
                 (PyArray_DIMS wm) (PyArray_STRIDES wm) ''where mask'' = Inr ws
            \<and> PrepareTwoRawArrayIter ext (PyArray_NDIM dst) (PyArray_DIMS dst)
                 (PyArray_DATA dst) (PyArray_STRIDES dst) (PyArray_DATA wm) ws = Inr it2
            \<and> prod_list (shape0 (dst_it it2) # shape_outer (dst_it it2)) = 0
            \<and> GetMaskedDTypeTransferFunction ext
                 (check_alignment (PyArray_NDIM dst) (PyArray_DESCR dst) (PyArray_DATA dst)
                    (PyArray_STRIDES dst) src_dtype src_data)
                 0 (dst_stride0 (dst_it it2)) (mask_stride0 it2) src_dtype (PyArray_DESCR dst)
                 (PyArray_DESCR wm) False = Inr t2
            \<and> (\<forall>d m h. mstransfer t2 d (dst_stride0 (dst_it it2)) src_data 0
                          m (mask_stride0 it2) 0 (elsize src_dtype) h = h)
            \<and> pending (hp w) = None \<longrightarrow>
          fst r = 0 \<and> hp (snd r) = hp w))"
proof -
  assume z: "PyArray_SIZE dst = 0"
  let ?r = "PyArray_AssignRawScalar ext dst src_dtype src_data wheremask casting w"
  let ?new = "drop (length (trace w)) (trace (snd ?r))"
  let ?ok = "writeable dst
     \<and> can_cast_scalar_to ext src_dtype src_data (hp w) (PyArray_DESCR dst) casting"
  have ns: "\<not> needs_staging ext dst src_dtype src_data"
    using z by (simp add: needs_staging_def)
  have c1: "\<not> writeable dst \<Longrightarrow>
          fst ?r = - 1
          \<and> pending (hp (snd ?r)) = Some (ValueError ''assignment destination is read-only'')
          \<and> mem (hp (snd ?r)) = mem (hp w) \<and> ?new = []"
    by (simp add: PyArray_AssignRawScalar_def PyArray_FailUnlessWriteable_def)
  have c2: "writeable dst \<Longrightarrow>
          \<not> can_cast_scalar_to ext src_dtype src_data (hp w) (PyArray_DESCR dst) casting \<Longrightarrow>
          fst ?r = - 1
          \<and> pending (hp (snd ?r)) =
              Some (TypeError (cast_errmsg ext src_dtype (PyArray_DESCR dst) casting))
          \<and> mem (hp (snd ?r)) = mem (hp w) \<and> ?new = []"
    by (simp add: PyArray_AssignRawScalar_def PyArray_FailUnlessWriteable_def)
  have eq: "?ok \<Longrightarrow> ?r = dispatch ext dst src_dtype src_data wheremask w"
    using ns by (simp add: no_staging_assign)
  have okI: "writeable dst \<Longrightarrow>
     can_cast_scalar_to ext src_dtype src_data (hp w) (PyArray_DESCR dst) casting \<Longrightarrow> ?ok"
    by simp
  have c3: "writeable dst \<Longrightarrow> can_cast_scalar_to ext src_dtype src_data (hp w) (PyArray_DESCR dst) casting \<Longrightarrow>
          filter is_stage_event ?new = [] \<and> mallocs ?new = [] \<and> frees ?new = []
          \<and> set (src_dtypes ?new) \<subseteq> {src_dtype} \<and> set (src_ptrs ?new) \<subseteq> {src_data}"
  proof -
    assume wr: "writeable dst" and cc: "can_cast_scalar_to ext src_dtype src_data (hp w) (PyArray_DESCR dst) casting"
    then have ok: ?ok by simp
    obtain evs where evs:
      "trace (snd (dispatch ext dst src_dtype src_data wheremask w)) = trace w @ evs"
      "list_all is_engine_event evs"
      "set (src_dtypes evs) \<subseteq> {src_dtype}"
      "set (src_ptrs evs) \<subseteq> {src_data}"
      using dispatch_events by blast
    show ?thesis
      using engine_events_no_alloc [OF evs(2)] evs(3,4)
      by (simp add: eq [OF ok] evs(1))
  qed
  have c4: "writeable dst \<Longrightarrow> can_cast_scalar_to ext src_dtype src_data (hp w) (PyArray_DESCR dst) casting \<Longrightarrow> wheremask = None \<Longrightarrow>
       PrepareOneRawArrayIter ext (PyArray_NDIM dst) (PyArray_DIMS dst)
                 (PyArray_DATA dst) (PyArray_STRIDES dst) = Inr it \<Longrightarrow>
       prod_list (shape0 it # shape_outer it) = 0 \<Longrightarrow>
       GetDTypeTransferFunction ext
                 (check_alignment (PyArray_NDIM dst) (PyArray_DESCR dst) (PyArray_DATA dst)
                    (PyArray_STRIDES dst) src_dtype src_data)
                 0 (dst_stride0 it) src_dtype (PyArray_DESCR dst) False = Inr t \<Longrightarrow>
       (\<forall>d h. stransfer t d (dst_stride0 it) src_data 0 0 (elsize src_dtype) h = h) \<Longrightarrow>
       pending (hp w) = None \<Longrightarrow> fst ?r = 0 \<and> hp (snd ?r) = hp w"
  proof -
    assume wr: "writeable dst" and cc: "can_cast_scalar_to ext src_dtype src_data (hp w) (PyArray_DESCR dst) casting"
    then have ok: ?ok by simp
    assume a: "wheremask = None"
      "PrepareOneRawArrayIter ext (PyArray_NDIM dst) (PyArray_DIMS dst)
                 (PyArray_DATA dst) (PyArray_STRIDES dst) = Inr it"
      "prod_list (shape0 it # shape_outer it) = 0"
      "GetDTypeTransferFunction ext
                 (check_alignment (PyArray_NDIM dst) (PyArray_DESCR dst) (PyArray_DATA dst)
                    (PyArray_STRIDES dst) src_dtype src_data)
                 0 (dst_stride0 it) src_dtype (PyArray_DESCR dst) False = Inr t"
      "\<forall>d h. stransfer t d (dst_stride0 it) src_data 0 0 (elsize src_dtype) h = h"
      "pending (hp w) = None"
    have r: "?r = raw_array_assign_scalar ext (PyArray_NDIM dst) (PyArray_DIMS dst)
           (PyArray_DESCR dst) (PyArray_DATA dst) (PyArray_STRIDES dst) src_dtype src_data w"
      unfolding eq [OF ok] by (simp add: a(1) dispatch_def)
    have h: "hp (snd ?r) = hp w"
      unfolding r using a(5)
      by (simp add: one_hp a(2) a(4) one_rows_def
            zero_plan_rows [OF a(3), where f = "\<lambda>d n. stransfer t d (dst_stride0 it) src_data 0 n
               (elsize src_dtype)"])
    have "fst ?r = (if needs_api t \<and> pending (hp (snd ?r)) \<noteq> None then - 1 else 0)"
      unfolding r by (simp add: one_ret a(2) a(4))
    with h a(6) show ?thesis by simp
  qed
  have c5: "writeable dst \<Longrightarrow> can_cast_scalar_to ext src_dtype src_data (hp w) (PyArray_DESCR dst) casting \<Longrightarrow> wheremask = Some wm \<Longrightarrow>
       broadcast_strides ext (PyArray_NDIM dst) (PyArray_DIMS dst) (PyArray_NDIM wm)
                 (PyArray_DIMS wm) (PyArray_STRIDES wm) ''where mask'' = Inr ws \<Longrightarrow>
       PrepareTwoRawArrayIter ext (PyArray_NDIM dst) (PyArray_DIMS dst)
                 (PyArray_DATA dst) (PyArray_STRIDES dst) (PyArray_DATA wm) ws = Inr it2 \<Longrightarrow>
       prod_list (shape0 (dst_it it2) # shape_outer (dst_it it2)) = 0 \<Longrightarrow>
       GetMaskedDTypeTransferFunction ext
                 (check_alignment (PyArray_NDIM dst) (PyArray_DESCR dst) (PyArray_DATA dst)
                    (PyArray_STRIDES dst) src_dtype src_data)
                 0 (dst_stride0 (dst_it it2)) (mask_stride0 it2) src_dtype (PyArray_DESCR dst)
                 (PyArray_DESCR wm) False = Inr t2 \<Longrightarrow>
       (\<forall>d m h. mstransfer t2 d (dst_stride0 (dst_it it2)) src_data 0
                          m (mask_stride0 it2) 0 (elsize src_dtype) h = h) \<Longrightarrow>
       pending (hp w) = None \<Longrightarrow> fst ?r = 0 \<and> hp (snd ?r) = hp w"
  proof -
    assume wr: "writeable dst" and cc: "can_cast_scalar_to ext src_dtype src_data (hp w) (PyArray_DESCR dst) casting"
    then have ok: ?ok by simp
    assume a: "wheremask = Some wm"
      "broadcast_strides ext (PyArray_NDIM dst) (PyArray_DIMS dst) (PyArray_NDIM wm)
                 (PyArray_DIMS wm) (PyArray_STRIDES wm) ''where mask'' = Inr ws"
      "PrepareTwoRawArrayIter ext (PyArray_NDIM dst) (PyArray_DIMS dst)
                 (PyArray_DATA dst) (PyArray_STRIDES dst) (PyArray_DATA wm) ws = Inr it2"
      "prod_list (shape0 (dst_it it2) # shape_outer (dst_it it2)) = 0"
      "GetMaskedDTypeTransferFunction ext
                 (check_alignment (PyArray_NDIM dst) (PyArray_DESCR dst) (PyArray_DATA dst)
                    (PyArray_STRIDES dst) src_dtype src_data)
                 0 (dst_stride0 (dst_it it2)) (mask_stride0 it2) src_dtype (PyArray_DESCR dst)
                 (PyArray_DESCR wm) False = Inr t2"
      "\<forall>d m h. mstransfer t2 d (dst_stride0 (dst_it it2)) src_data 0
                          m (mask_stride0 it2) 0 (elsize src_dtype) h = h"
      "pending (hp w) = None"
    have r: "?r = raw_array_wheremasked_assign_scalar ext (PyArray_NDIM dst) (PyArray_DIMS dst)
           (PyArray_DESCR dst) (PyArray_DATA dst) (PyArray_STRIDES dst) src_dtype src_data
           (PyArray_DESCR wm) (PyArray_DATA wm) ws w"
      unfolding eq [OF ok] by (simp add: a(1) a(2) dispatch_def)
    have h: "hp (snd ?r) = hp w"
      unfolding r using a(6)
      by (simp add: two_hp a(3) a(5) two_rows_def split_def
            zero_plan_rows [OF a(4), where f = "\<lambda>p n. mstransfer t2 (fst p)
               (dst_stride0 (dst_it it2)) src_data 0 (snd p) (mask_stride0 it2) n
               (elsize src_dtype)"])
    have "fst ?r = (if mneeds_api t2 \<and> pending (hp (snd ?r)) \<noteq> None then - 1 else 0)"
      unfolding r by (simp add: two_ret a(3) a(5))
    with h a(7) show ?thesis by simp
  qed
  show ?thesis
    unfolding Let_def
  proof (intro conjI)
    show "\<not> writeable dst \<longrightarrow>
          fst ?r = - 1
          \<and> pending (hp (snd ?r)) = Some (ValueError ''assignment destination is read-only'')
          \<and> mem (hp (snd ?r)) = mem (hp w) \<and> ?new = []"
      using c1 by (intro impI)
  qed (intro impI, elim conjE, (rule c2 c3 c4 c5; assumption))+
qed

theorem zero_size_destination_witness:
  "PyArray_SIZE empty04 = 0 \<and> writeable empty04
   \<and> can_cast_scalar_to plain_ext int8_descr 100 (hp zero_world) (PyArray_DESCR empty04)
        NPY_SAFE_CASTING
   \<and> PrepareOneRawArrayIter plain_ext (PyArray_NDIM empty04) (PyArray_DIMS empty04)
        (PyArray_DATA empty04) (PyArray_STRIDES empty04) = Inr plan_empty
   \<and> (let r = PyArray_AssignRawScalar plain_ext empty04 int8_descr 100 None NPY_SAFE_CASTING
                zero_world;
          new = drop (length (trace zero_world)) (trace (snd r))
      in filter is_stage_event new = [] \<and> mallocs new = [] \<and> frees new = []
         \<and> fst r = 0 \<and> hp (snd r) = hp zero_world)"
proof -
  have h0: "PyArray_SIZE empty04 = 0"
    by (simp add: PyArray_SIZE_def empty04_def)
  have h1: "writeable empty04"
    by (simp add: empty04_def)
  have h2: "can_cast_scalar_to plain_ext int8_descr 100 (hp zero_world) (PyArray_DESCR empty04)
              NPY_SAFE_CASTING"
    by (simp add: plain_ext_def empty04_def int8_descr_def int32_descr_def)
  have h3: "PrepareOneRawArrayIter plain_ext (PyArray_NDIM empty04) (PyArray_DIMS empty04)
              (PyArray_DATA empty04) (PyArray_STRIDES empty04) = Inr plan_empty"
    by (simp add: plain_ext_def empty04_def PyArray_NDIM_def plain_one_iter_def plan_empty_def)
  have h4: "prod_list (shape0 plan_empty # shape_outer plan_empty) = 0"
    by (simp add: plan_empty_def)
  have h5: "GetDTypeTransferFunction plain_ext
              (check_alignment (PyArray_NDIM empty04) (PyArray_DESCR empty04)
                 (PyArray_DATA empty04) (PyArray_STRIDES empty04) int8_descr 100)
              0 (dst_stride0 plan_empty) int8_descr (PyArray_DESCR empty04) False
            = Inr widen_xfer"
    by (simp add: plain_ext_def widen_xfer_def empty04_def int8_descr_def int32_descr_def)
  have h6: "\<forall>d h. stransfer widen_xfer d (dst_stride0 plan_empty) 100 0 0 (elsize int8_descr) h = h"
    by (simp add: widen_xfer_def strided_transfer_def)
  have h7: "pending (hp zero_world) = None"
    by (simp add: zero_world_def)
  note T = zero_size_destination [OF h0, where ext = plain_ext and src_dtype = int8_descr
      and src_data = 100 and wheremask = None and casting = NPY_SAFE_CASTING
      and w = zero_world and it = plan_empty and t = widen_xfer, unfolded Let_def]
  note c3 = T [THEN conjunct2, THEN conjunct2, THEN conjunct1, rule_format, OF conjI [OF h1 h2]]
  have p: "writeable empty04
       \<and> can_cast_scalar_to plain_ext int8_descr 100 (hp zero_world) (PyArray_DESCR empty04)
            NPY_SAFE_CASTING
       \<and> None = (None :: PyArrayObject option)
       \<and> PrepareOneRawArrayIter plain_ext (PyArray_NDIM empty04) (PyArray_DIMS empty04)
            (PyArray_DATA empty04) (PyArray_STRIDES empty04) = Inr plan_empty
       \<and> prod_list (shape0 plan_empty # shape_outer plan_empty) = 0
       \<and> GetDTypeTransferFunction plain_ext
              (check_alignment (PyArray_NDIM empty04) (PyArray_DESCR empty04)
                 (PyArray_DATA empty04) (PyArray_STRIDES empty04) int8_descr 100)
              0 (dst_stride0 plan_empty) int8_descr (PyArray_DESCR empty04) False
            = Inr widen_xfer
       \<and> (\<forall>d h. stransfer widen_xfer d (dst_stride0 plan_empty) 100 0 0 (elsize int8_descr) h = h)
       \<and> pending (hp zero_world) = None"
    using h1 h2 h3 h4 h5 h6 h7 by (intro conjI) simp_all
  note c4 = T [THEN conjunct2, THEN conjunct2, THEN conjunct2, THEN conjunct1, rule_format, OF p]
  show ?thesis
    unfolding Let_def using h0 h1 h2 h3 c3 c4 by (intro conjI) simp_all
qed

subsection \<open>Masked and unconditional assignment\<close>



lemma copy_elem_pending [simp]: "pending (copy_elem cast sd dd d s isz h) = pending h"
  by (simp add: copy_elem_def)







lemma mask_slots_rows:
  "(d, m) \<in> set (two_rows it) \<Longrightarrow>
   set (row_slots m (mask_stride0 it) (shape0 (dst_it it))) \<subseteq> set (mask_slots it)"
  by (auto simp add: mask_slots_def)


lemma masked_copies_none:
  assumes "\<forall>i \<in> set js. mem h (m + int i * ms) = 0"
  shows "fold (\<lambda>i h'. if mem h' (m + int i * ms) \<noteq> 0
                      then copy_elem cast sd dd (d + int i * ds) (s + int i * ss) isz h'
                      else h') js h = h"
  using assms by (induction js) simp_all

lemma masked_row_none:
  assumes "\<forall>a \<in> set (row_slots m ms N). mem h a = 0"
  shows "masked_strided_transfer cast sd dd d ds s ss m ms N isz h = h"
  unfolding masked_strided_transfer_def
  using assms by (intro masked_copies_none) (simp add: row_slots_def)

lemma masked_rows_none:
  assumes "\<forall>(d, m) \<in> set rows. \<forall>a \<in> set (row_slots m ms N). mem h a = 0"
  shows "fold (\<lambda>(d, m). masked_strided_transfer cast sd dd d ds s ss m ms N isz) rows h = h"
  using assms by (induction rows) (auto simp add: masked_row_none)

lemma plan34_fields:
  "shape0 plan34 = 4" "dst_stride0 plan34 = 4" "dst_it plan34m = plan34"
  "mask_stride0 plan34m = 1"
  by (simp_all add: plan34_def plan34m_def)

lemma mask_slots_plan34m:
  "mask_slots plan34m = [200, 201, 202, 203, 204, 205, 206, 207, 208, 209, 210, 211]"
  by (simp add: mask_slots_def two_rows_plan34m row_slots_def plan34_fields upt_rec)

lemma dst_slots_plan34: "dst_slots plan34 = [0, 4, 8, 12, 16, 20, 24, 28, 32, 36, 40, 44]"
  by (simp add: dst_slots_def one_rows_plan34 row_slots_def plan34_fields upt_rec)

lemma plain_ext_34:
  "PrepareOneRawArrayIter plain_ext 2 [3, 4] 0 [16, 4] = Inr plan34"
  "PrepareTwoRawArrayIter plain_ext 2 [3, 4] 0 [16, 4] 200 [4, 1] = Inr plan34m"
  "dst_it plan34m = plan34"
  "GetDTypeTransferFunction plain_ext al 0 ds int8_descr int32_descr False = Inr widen_xfer"
  "stransfer widen_xfer = strided_transfer widen int8_descr int32_descr"
  "GetMaskedDTypeTransferFunction plain_ext al 0 ds ms int8_descr int32_descr bool_descr False
     = Inr widen_mxfer"
  "mstransfer widen_mxfer = masked_strided_transfer widen int8_descr int32_descr"
  by (simp_all add: plain_ext_def plain_one_34 plain_two_34 plan34m_def widen_xfer_def
        widen_mxfer_def int8_descr_def int32_descr_def)

lemma row_as_slots:
  "strided_transfer cast sd dd d ds s 0 N isz h
   = fold (\<lambda>x. copy_elem cast sd dd x s isz) (row_slots d ds N) h"
  by (simp add: strided_transfer_def row_slots_def fold_map comp_def)

lemma rows_as_slots:
  "fold (\<lambda>d. strided_transfer cast sd dd d ds s 0 N isz) rows h
   = fold (\<lambda>x. copy_elem cast sd dd x s isz) (concat (map (\<lambda>d. row_slots d ds N) rows)) h"
proof (induction rows arbitrary: h)
  case Nil
  then show ?case by simp
next
  case (Cons r rows)
  then show ?case by (simp add: row_as_slots)
qed

lemma one_heap_slots:
  assumes "PrepareOneRawArrayIter ext ndim shape dst_data dst_strides = Inr it"
    and "GetDTypeTransferFunction ext
           (check_alignment ndim dst_dtype dst_data dst_strides src_dtype src_data)
           0 (dst_stride0 it) src_dtype dst_dtype False = Inr t"
    and "stransfer t = strided_transfer cast src_dtype dst_dtype"
  shows "hp (snd (raw_array_assign_scalar ext ndim shape dst_dtype dst_data dst_strides
                      src_dtype src_data w))
         = fold (\<lambda>x. copy_elem cast src_dtype dst_dtype x src_data (elsize src_dtype))
             (dst_slots it) (hp w)"
  using assms by (simp add: one_hp rows_as_slots dst_slots_def)








text \<open>C5: let the masked constructor return the masked callback of the spec. If the mask
  byte of every slot is false before the call, the masked engine returns the heap it was
  given: every byte of the destination (and of everything else) is unchanged.\<close>

theorem all_false_mask_leaves_destination:
  assumes "PrepareTwoRawArrayIter ext ndim shape dst_data dst_strides wm_data wm_strides = Inr it2"
    and "GetMaskedDTypeTransferFunction ext
           (check_alignment ndim dst_dtype dst_data dst_strides src_dtype src_data)
           0 (dst_stride0 (dst_it it2)) (mask_stride0 it2) src_dtype dst_dtype wm_dtype False
           = Inr t2"
    and "mstransfer t2 = masked_strided_transfer cast src_dtype dst_dtype"
    and "\<forall>a \<in> set (mask_slots it2). mem (hp w) a = 0"
  shows "hp (snd (raw_array_wheremasked_assign_scalar ext ndim shape dst_dtype dst_data
                    dst_strides src_dtype src_data wm_dtype wm_data wm_strides w)) = hp w"
proof -
  have "\<forall>(d, m) \<in> set (two_rows it2).
          \<forall>a \<in> set (row_slots m (mask_stride0 it2) (shape0 (dst_it it2))). mem (hp w) a = 0"
    using mask_slots_rows assms(4) by blast
  then have "fold (\<lambda>(d, m). masked_strided_transfer cast src_dtype dst_dtype d
                  (dst_stride0 (dst_it it2)) src_data 0 m (mask_stride0 it2)
                  (shape0 (dst_it it2)) (elsize src_dtype))
          (two_rows it2) (hp w) = hp w"
    by (rule masked_rows_none)
  then show ?thesis
    by (simp add: two_hp assms(1,2,3))
qed

theorem all_false_mask_leaves_destination_witness:
  "PrepareTwoRawArrayIter plain_ext 2 [3, 4] 0 [16, 4] 200 [4, 1] = Inr plan34m
   \<and> list_all (\<lambda>a. mem (hp neg_world) a = 0) (mask_slots plan34m)
   \<and> hp (snd (raw_array_wheremasked_assign_scalar plain_ext 2 [3, 4] int32_descr 0 [16, 4]
                 int8_descr 100 bool_descr 200 [4, 1] neg_world)) = hp neg_world"
proof -
  have h4: "\<forall>a \<in> set (mask_slots plan34m). mem (hp neg_world) a = 0"
    by (simp add: mask_slots_plan34m neg_world_def)
  have g: "GetMaskedDTypeTransferFunction plain_ext
             (check_alignment 2 int32_descr 0 [16, 4] int8_descr 100)
             0 (dst_stride0 (dst_it plan34m)) (mask_stride0 plan34m)
             int8_descr int32_descr bool_descr False = Inr widen_mxfer"
    by (rule plain_ext_34(6))
  note e = all_false_mask_leaves_destination [OF plain_ext_34(2) g plain_ext_34(7) h4]
  show ?thesis
    using h4 e by (simp add: plain_ext_34(2) list_all_iff)
qed

subsection \<open>A run of the whole assignment\<close>

lemma stage_3x4:
  "continue (stage_scalar plain_ext dst34 int8_descr 100 true_mask_world)"
  "\<not> allocated_src_data (stage_scalar plain_ext dst34 int8_descr 100 true_mask_world)"
  "st_src_dtype (stage_scalar plain_ext dst34 int8_descr 100 true_mask_world) = int32_descr"
  "st_src_data (stage_scalar plain_ext dst34 int8_descr 100 true_mask_world) = 1000"
  "hp (st_world (stage_scalar plain_ext dst34 int8_descr 100 true_mask_world)) =
     copy_elem widen int8_descr int32_descr 1000 100 1 (hp true_mask_world)"
  by (simp_all add: stage_scalar_def needs_staging_def plain_ext_def dst34_def int8_descr_def
        int32_descr_def PyArray_SIZE_def sizeof_scalarbuffer_def npy_is_aligned_def)

text \<open>The scenario of the spec (8): a 3 by 4 destination of 4-byte integers, the 1-byte
  integer 5 as the scalar, casting rule \<open>safe\<close>, the reference instance of the
  collaborators. The scalar is staged into the inline buffer, the call returns \<open>0\<close>, and
  each of the twelve slots holds 5 as a 4-byte little-endian integer.\<close>

theorem scenario_3x4:
  "(let r = PyArray_AssignRawScalar plain_ext dst34 int8_descr 100 None NPY_SAFE_CASTING
              true_mask_world
    in fst r = 0
       \<and> list_all (\<lambda>x. read_bytes (mem (hp (snd r))) x 4 = [5, 0, 0, 0]) (dst_slots plan34))"
proof -
  let ?W = "st_world (stage_scalar plain_ext dst34 int8_descr 100 true_mask_world)"
  let ?e = "raw_array_assign_scalar plain_ext (PyArray_NDIM dst34) (PyArray_DIMS dst34)
              (PyArray_DESCR dst34) (PyArray_DATA dst34) (PyArray_STRIDES dst34)
              int32_descr 1000 ?W"
  have c: "can_cast_scalar_to plain_ext int8_descr 100 (hp true_mask_world) (PyArray_DESCR dst34)
             NPY_SAFE_CASTING" "writeable dst34"
    by (simp_all add: plain_ext_def dst34_def int8_descr_def int32_descr_def)
  have "fst ?e \<in> {- 1, 0}" by (rule one_ret_range)
  then have "(if fst ?e < 0 then - 1 else 0) = fst ?e" by auto
  then have r: "PyArray_AssignRawScalar plain_ext dst34 int8_descr 100 None NPY_SAFE_CASTING
              true_mask_world = ?e"
    using c by (simp add: PyArray_AssignRawScalar_def PyArray_FailUnlessWriteable_def Let_def
            stage_3x4 dispatch_def split_def)
  have p: "PrepareOneRawArrayIter plain_ext (PyArray_NDIM dst34) (PyArray_DIMS dst34)
             (PyArray_DATA dst34) (PyArray_STRIDES dst34) = Inr plan34"
    by (simp add: plain_ext_def dst34_def PyArray_NDIM_def plain_one_iter_def plan34_def)
  have g: "GetDTypeTransferFunction plain_ext al 0 ds int32_descr (PyArray_DESCR dst34) False
            = Inr \<lparr>stransfer = strided_transfer widen int32_descr int32_descr, needs_api = False\<rparr>"
    for al ds
    by (simp add: plain_ext_def int32_descr_def dst34_def)
  have h: "hp (snd ?e) = fold (\<lambda>x. copy_elem widen int32_descr (PyArray_DESCR dst34) x 1000
                                 (elsize int32_descr))
             (dst_slots plan34) (hp ?W)"
    by (rule one_heap_slots [OF p g]) (simp add: dst34_def)
  have f: "fst ?e = 0"
    by (simp add: one_ret p g)
  have v: "list_all (\<lambda>x. read_bytes (mem (hp (snd ?e))) x 4 = [5, 0, 0, 0]) (dst_slots plan34)"
    unfolding h dst_slots_plan34 stage_3x4
    by (simp add: copy_elem_def read_bytes_def widen_def int32_descr_def int8_descr_def
          dst34_def true_mask_world_def upt_rec numeral_3_eq_3)
  show ?thesis unfolding Let_def r using f v by simp
qed

end
